theory Spec2Isabelle
  imports Complex_Main "HOL-Library.Multiset"
begin

section \<open>Python values and dictionaries\<close>

text \<open>
  The scoring code of \<^verbatim>\<open>src/api.py\<close> works on rows of the \<^verbatim>\<open>locations\<close> table, each a
  Python \<^verbatim>\<open>dict\<close> from column names to JSON values. A value is one of the JSON shapes;
  a place is a map from keys to values.

  Floats are modelled by the reals: arithmetic is exact, and neither NaN nor the
  infinities are represented. On these values \<^verbatim>\<open>math.isnan\<close> is constantly false.
  Nested dictionaries (\<^verbatim>\<open>ml_metadata\<close>, the custom weights) are association lists in
  insertion order; a list that stands for a dictionary holds each key once.
\<close>

datatype pyval =
    PNone
  | PBool bool
  | PInt int
  | PFloat real
  | PStr string
  | PList "pyval list"
  | PDict "(string \<times> pyval) list"

type_synonym place = "string \<rightharpoonup> pyval"

datatype pyexc = TypeError | ValueError | AttributeError | KeyError

text \<open>
  What \<^verbatim>\<open>float(s)\<close> and \<^verbatim>\<open>int(s)\<close> return on a string is decided by the interpreter's
  numeral parser, which is no part of the repository. Both are parameters of the model;
  \<open>None\<close> stands for the \<^verbatim>\<open>ValueError\<close> raised on text that is no numeral.
\<close>

record builtins =
  str_float :: "string \<Rightarrow> real option"
  str_int :: "string \<Rightarrow> int option"

definition dict_get :: "place \<Rightarrow> string \<Rightarrow> pyval" where
  \<comment> \<open>\<^verbatim>\<open>place.get(key)\<close>: a missing key reads as \<^verbatim>\<open>None\<close>\<close>
  "dict_get p k = (case p k of None \<Rightarrow> PNone | Some v \<Rightarrow> v)"

definition truthy :: "pyval \<Rightarrow> bool" where
  "truthy v = (case v of
       PNone \<Rightarrow> False
     | PBool b \<Rightarrow> b
     | PInt i \<Rightarrow> i \<noteq> 0
     | PFloat r \<Rightarrow> r \<noteq> 0
     | PStr s \<Rightarrow> s \<noteq> []
     | PList l \<Rightarrow> l \<noteq> []
     | PDict d \<Rightarrow> d \<noteq> [])"

definition py_or :: "pyval \<Rightarrow> pyval \<Rightarrow> pyval" where
  \<comment> \<open>\<^verbatim>\<open>x or d\<close>\<close>
  "py_or x d = (if truthy x then x else d)"

definition is_number :: "pyval \<Rightarrow> bool" where
  \<comment> \<open>\<^verbatim>\<open>isinstance(v, (int, float))\<close>; \<^verbatim>\<open>bool\<close> is a subclass of \<^verbatim>\<open>int\<close>\<close>
  "is_number v = (case v of PBool _ \<Rightarrow> True | PInt _ \<Rightarrow> True | PFloat _ \<Rightarrow> True | _ \<Rightarrow> False)"

definition py_num :: "pyval \<Rightarrow> real option" where
  \<comment> \<open>the numeric value used by \<^verbatim>\<open><\<close>, \<^verbatim>\<open>>=\<close> and \<^verbatim>\<open>==\<close> against a number;
      \<open>None\<close> where an ordering comparison raises \<^verbatim>\<open>TypeError\<close>\<close>
  "py_num v = (case v of
       PBool b \<Rightarrow> Some (if b then 1 else 0)
     | PInt i \<Rightarrow> Some (of_int i)
     | PFloat r \<Rightarrow> Some r
     | _ \<Rightarrow> None)"

definition py_float :: "builtins \<Rightarrow> pyval \<Rightarrow> real option" where
  \<comment> \<open>\<^verbatim>\<open>float(x)\<close>; \<open>None\<close> where it raises\<close>
  "py_float B v = (case v of
       PBool b \<Rightarrow> Some (if b then 1 else 0)
     | PInt i \<Rightarrow> Some (of_int i)
     | PFloat r \<Rightarrow> Some r
     | PStr s \<Rightarrow> str_float B s
     | _ \<Rightarrow> None)"

definition py_int :: "builtins \<Rightarrow> pyval \<Rightarrow> int option" where
  \<comment> \<open>\<^verbatim>\<open>int(x)\<close>, truncating a float towards zero; \<open>None\<close> where it raises\<close>
  "py_int B v = (case v of
       PBool b \<Rightarrow> Some (if b then 1 else 0)
     | PInt i \<Rightarrow> Some i
     | PFloat r \<Rightarrow> Some (if 0 \<le> r then \<lfloor>r\<rfloor> else \<lceil>r\<rceil>)
     | PStr s \<Rightarrow> str_int B s
     | _ \<Rightarrow> None)"

definition py_get :: "pyval \<Rightarrow> string \<Rightarrow> pyval \<Rightarrow> pyexc + pyval" where
  \<comment> \<open>\<^verbatim>\<open>obj.get(key, default)\<close> on an arbitrary value: only a dict has the method\<close>
  "py_get obj k d = (case obj of
       PDict kvs \<Rightarrow> Inr (case map_of kvs k of None \<Rightarrow> d | Some v \<Rightarrow> v)
     | _ \<Rightarrow> Inl AttributeError)"

definition opt_val :: "real option \<Rightarrow> pyval" where
  "opt_val r = (case r of None \<Rightarrow> PNone | Some x \<Rightarrow> PFloat x)"

section \<open>Numeric helpers\<close>

definition clamp :: "real \<Rightarrow> real \<Rightarrow> real \<Rightarrow> real" where
  \<comment> \<open>\<^verbatim>\<open>_clamp(x, lo, hi)\<close>\<close>
  "clamp x lo hi = max lo (min hi x)"

definition safe_float :: "builtins \<Rightarrow> pyval \<Rightarrow> real option \<Rightarrow> real option" where
  \<comment> \<open>\<^verbatim>\<open>_safe_float(x, default)\<close>, the default being a float or \<^verbatim>\<open>None\<close>\<close>
  "safe_float B x d = (case py_float B x of Some r \<Rightarrow> Some r | None \<Rightarrow> d)"

definition safe_float_num :: "builtins \<Rightarrow> pyval \<Rightarrow> real \<Rightarrow> real" where
  \<comment> \<open>\<^verbatim>\<open>_safe_float(x, default)\<close> with a float default: the result is a float\<close>
  "safe_float_num B x d = (case py_float B x of Some r \<Rightarrow> r | None \<Rightarrow> d)"

definition safe_int :: "builtins \<Rightarrow> pyval \<Rightarrow> int \<Rightarrow> int" where
  \<comment> \<open>\<^verbatim>\<open>_safe_int(x, default)\<close>\<close>
  "safe_int B x d = (case py_int B x of Some i \<Rightarrow> i | None \<Rightarrow> d)"

definition round_half_even :: "real \<Rightarrow> int" where
  "round_half_even y =
     (let f = \<lfloor>y\<rfloor>; d = y - of_int f
      in if d < 1/2 then f
         else if 1/2 < d then f + 1
         else if even f then f else f + 1)"

definition py_round1 :: "real \<Rightarrow> real" where
  \<comment> \<open>\<^verbatim>\<open>round(x, 1)\<close>: to the nearest multiple of 0.1, a tie going to the even digit\<close>
  "py_round1 x = of_int (round_half_even (x * 10)) / 10"

section \<open>Sub-score calculators\<close>

definition character_0_10 :: "builtins \<Rightarrow> place \<Rightarrow> real" where
  "character_0_10 B place =
     (let auth = safe_float B (dict_get place ''avg_authenticity'') None;
          classic = safe_float B (dict_get place ''avg_classic_institution'') None;
          unpr = safe_float B (dict_get place ''avg_unpretentious'') None;
          divey = safe_float B (dict_get place ''avg_divey_score'') None;
          memo = safe_float B (dict_get place ''avg_memorable'') None;
          base = (case (auth, classic, unpr) of
                    (Some a, Some c, Some u) \<Rightarrow>
                      (let divey_val = (case divey of Some d \<Rightarrow> d | None \<Rightarrow> 0.0);
                           memo_val = (case memo of Some m \<Rightarrow> m | None \<Rightarrow> 0.5);
                           raw = 0.30 * a + 0.25 * c + 0.20 * u + 0.15 * divey_val + 0.10 * memo_val
                       in raw * 10.0)
                  | _ \<Rightarrow>
                      (let p = safe_float_num B (dict_get place ''pct_dive_positive'') 0.0;
                           p = clamp p 0.0 1.0;
                           t = 0.28;
                           k = 16.0
                       in 10.0 / (1.0 + exp (- k * (p - t)))));
          vibe = dict_get place ''vibe_tag'';
          base = (if vibe = PStr ''Beloved_Dive'' then base + 0.3
                  else if vibe = PStr ''Polarizing_Dive'' then base + 0.2
                  else base);
          gr = safe_int B (dict_get place ''user_ratings_total'') 0;
          rc = safe_int B (dict_get place ''review_count'') 0;
          base = (if gr < 100 \<or> rc < 25 then min base 9.8 else base);
          base = (if gr < 50 \<or> rc < 15 then min base 9.4 else base)
      in py_round1 (clamp base 0.0 10.0))"

definition diveiness_0_10 :: "builtins \<Rightarrow> place \<Rightarrow> real" where
  "diveiness_0_10 B place = character_0_10 B place"

definition quality_0_10 :: "builtins \<Rightarrow> place \<Rightarrow> real" where
  "quality_0_10 B place =
     (let food = safe_float B (dict_get place ''avg_food_drink_quality'') None;
          service = safe_float B (dict_get place ''avg_service_quality'') None;
          val = safe_float B (dict_get place ''avg_value_score'') None;
          recommend = safe_float B (dict_get place ''avg_would_recommend'') None;
          memo = safe_float B (dict_get place ''avg_memorable'') None;
          base = (case (food, recommend) of
                    (Some fd, Some rcm) \<Rightarrow>
                      (let svc = (case service of Some s \<Rightarrow> s | None \<Rightarrow> 0.5);
                           vl = (case val of Some v \<Rightarrow> v | None \<Rightarrow> 0.5);
                           memo_val = (case memo of Some m \<Rightarrow> m | None \<Rightarrow> 0.5);
                           raw = 0.35 * fd + 0.30 * rcm + 0.15 * svc + 0.10 * vl + 0.10 * memo_val
                       in raw * 10.0)
                  | _ \<Rightarrow>
                      (let sent = safe_float_num B (dict_get place ''avg_openai_sentiment'') 0.0
                       in (sent + 1.0) * 5.0));
          gr = safe_int B (dict_get place ''user_ratings_total'') 0;
          rc = safe_int B (dict_get place ''review_count'') 0;
          base = (if gr < 100 \<or> rc < 25 then min base 9.8 else base);
          base = (if gr < 50 \<or> rc < 15 then min base 9.4 else base)
      in py_round1 (clamp base 0.0 10.0))"

definition read_residual :: "pyval \<Rightarrow> pyexc + pyval" where
  \<comment> \<open>lines 251-253 of \<^verbatim>\<open>underrated_0_10\<close>: \<^verbatim>\<open>residual_deep\<close>, else \<^verbatim>\<open>residual\<close>\<close>
  "read_residual ml_data =
     (case py_get ml_data ''residual_deep'' PNone of
        Inl e \<Rightarrow> Inl e
      | Inr r \<Rightarrow> if r = PNone then py_get ml_data ''residual'' PNone else Inr r)"

definition underrated_fallback :: "builtins \<Rightarrow> place \<Rightarrow> real \<Rightarrow> pyexc + real" where
  \<comment> \<open>the branch of \<^verbatim>\<open>underrated_0_10\<close> taken when a signal is missing\<close>
  "underrated_fallback B place scale =
     (let ml_data = py_or (dict_get place ''ml_metadata'') (PDict [])
      in case read_residual ml_data of
           Inl e \<Rightarrow> Inl e
         | Inr r \<Rightarrow>
             if r = PNone then Inr 5.0
             else (let r = safe_float_num B r 0.0;
                       scale = max 0.10 scale;
                       u = 5.0 + 5.0 * tanh (r / scale)
                   in Inr (py_round1 (clamp u 0.0 10.0))))"

definition underrated_0_10 :: "builtins \<Rightarrow> place \<Rightarrow> real \<Rightarrow> pyexc + real" where
  "underrated_0_10 B place scale =
     (let recommend = safe_float B (dict_get place ''avg_would_recommend'') None;
          sentiment = safe_float B (dict_get place ''avg_openai_sentiment'') None;
          rating = safe_float_num B (dict_get place ''rating'') 4.0;
          review_count = safe_int B (dict_get place ''review_count'') 1
      in case (recommend, sentiment) of
           (Some rcm, Some snt) \<Rightarrow>
             (let norm_rating = (rating - 3.5) / 1.5;
                  norm_rating = clamp norm_rating 0.0 1.0;
                  norm_sentiment = (snt + 1.0) / 2.0;
                  rec_gap = rcm - norm_rating;
                  sent_gap = norm_sentiment - norm_rating;
                  discovery = 1.0 / (1.0 + log 10 (of_int (max review_count 1)));
                  raw = 0.40 * (rec_gap + 1.0) / 2.0 + 0.30 * (sent_gap + 1.0) / 2.0
                        + 0.30 * discovery
              in Inr (py_round1 (clamp (raw * 10.0) 0.0 10.0)))
         | _ \<Rightarrow> underrated_fallback B place scale)"

definition blended_0_10 :: "builtins \<Rightarrow> place \<Rightarrow> real option" where
  "blended_0_10 B place =
     (let q = dict_get place ''quality_0_10'';
          c = dict_get place ''character_0_10'';
          u = dict_get place ''underrated_0_10'';
          scores = [];
          weights = [];
          (scores, weights) =
             (if is_number q then (scores @ [safe_float_num B q 0.0], weights @ [0.40])
              else (scores, weights));
          (scores, weights) =
             (if is_number c then (scores @ [safe_float_num B c 0.0], weights @ [0.35])
              else (scores, weights));
          (scores, weights) =
             (if is_number u then (scores @ [safe_float_num B u 0.0], weights @ [0.25])
              else (scores, weights))
      in if scores = [] then None
         else (let total_weight = sum_list weights;
                   weighted_sum = sum_list (map (\<lambda>(s, w). s * w) (zip scores weights))
               in Some (py_round1 (weighted_sum / total_weight))))"

section \<open>Legacy dive-score classifier\<close>

definition rating_score_of :: "real \<Rightarrow> real" where
  \<comment> \<open>1. Rating Score (0-40)\<close>
  "rating_score_of rating =
     (let rating_score = (if rating \<ge> 4.0 then 30 + ((rating - 4.0) * 10)
                          else if rating \<ge> 3.5 then 20 + ((rating - 3.5) * 20)
                          else 10)
      in min 40 rating_score)"

definition review_score_of :: "real \<Rightarrow> real" where
  \<comment> \<open>2. Review Count Score (0-30)\<close>
  "review_score_of reviews =
     (if reviews < 20 then 10
      else if 20 \<le> reviews \<and> reviews \<le> 600 then 30
      else if 600 < reviews \<and> reviews \<le> 2000 then 20
      else 10)"

definition price_score_of :: "pyval \<Rightarrow> real" where
  \<comment> \<open>3. Price Score (0-30); \<^verbatim>\<open>price == k\<close> is numeric equality, false on a non-number\<close>
  "price_score_of price =
     (if py_num price = Some 1 then 30
      else if py_num price = Some 2 then 20
      else if py_num price = Some 3 then 5
      else if py_num price = Some 4 then 0
      else 15)"

definition ml_bonus_of :: "real \<Rightarrow> real" where
  \<comment> \<open>4. ML Bonus\<close>
  "ml_bonus_of residual =
     (if residual > 0.3 then 10
      else if residual > 0.1 then 5
      else if residual < - 0.3 then - 5
      else 0)"

definition dive_grade_of :: "real \<Rightarrow> string" where
  "dive_grade_of total_score =
     (if total_score \<ge> 85 then ''A''
      else if total_score \<ge> 70 then ''B''
      else if total_score \<ge> 50 then ''C''
      else ''D'')"

text \<open>The labels start with an emoji, written here as its UTF-8 bytes.\<close>

definition gem_label_of :: "real \<Rightarrow> string" where
  "gem_label_of total_score =
     (if total_score \<ge> 85 then [CHR 0xF0, CHR 0x9F, CHR 0x92, CHR 0x8E] @ '' Certified Gem''
      else if total_score \<ge> 70 then [CHR 0xF0, CHR 0x9F, CHR 0x8D, CHR 0xBA] @ '' Solid Spot''
      else if total_score \<ge> 50 then [CHR 0xF0, CHR 0x9F, CHR 0xA4, CHR 0xB7] @ '' Decent''
      else [CHR 0xF0, CHR 0x9F, CHR 0x9A, CHR 0xAB] @ '' Avoid'')"

definition dive_residual :: "builtins \<Rightarrow> pyval \<Rightarrow> pyexc + real" where
  \<comment> \<open>lines 334-340 of \<^verbatim>\<open>calculate_dive_score\<close>: \<^verbatim>\<open>residual\<close>, else \<^verbatim>\<open>residual_deep\<close>,
      else 0; what \<^verbatim>\<open>float\<close> rejects counts as 0.0\<close>
  "dive_residual B ml_data =
     (case py_get ml_data ''residual'' PNone of
        Inl e \<Rightarrow> Inl e
      | Inr residual \<Rightarrow>
          (case (if residual = PNone then py_get ml_data ''residual_deep'' (PInt 0)
                 else Inr residual) of
             Inl e \<Rightarrow> Inl e
           | Inr residual \<Rightarrow>
               Inr (case py_float B residual of Some r \<Rightarrow> r | None \<Rightarrow> 0.0)))"

definition dive_total :: "real \<Rightarrow> real \<Rightarrow> pyval \<Rightarrow> real \<Rightarrow> real" where
  \<comment> \<open>\<^verbatim>\<open>total_score\<close> after the clamp, before it is rounded for storage\<close>
  "dive_total rating reviews price residual =
     (let total_score = rating_score_of rating + review_score_of reviews
                        + price_score_of price + ml_bonus_of residual
      in max 0 (min 100 total_score))"

definition calculate_dive_score :: "builtins \<Rightarrow> place \<Rightarrow> pyexc + place" where
  "calculate_dive_score B place =
     (let rating = py_or (dict_get place ''rating'') (PInt 0);
          reviews = py_or (dict_get place ''user_ratings_total'') (PInt 0);
          price = dict_get place ''price_level'';
          ml_data = py_or (dict_get place ''ml_metadata'') (PDict [])
      in case dive_residual B ml_data of
           Inl e \<Rightarrow> Inl e
         | Inr residual \<Rightarrow>
             (case py_num rating of
                None \<Rightarrow> Inl TypeError
              | Some rating \<Rightarrow>
                  (case py_num reviews of
                     None \<Rightarrow> Inl TypeError
                   | Some reviews \<Rightarrow>
                       (let total_score = dive_total rating reviews price residual;
                            grade = dive_grade_of total_score;
                            label = gem_label_of total_score
                        in Inr (place(''dive_score'' \<mapsto> PFloat (py_round1 total_score),
                                      ''dive_grade'' \<mapsto> PStr grade,
                                      ''gem_label'' \<mapsto> PStr label))))))"

text \<open>
  \<^verbatim>\<open>dive_score\<close> is stored as a float: the response model declares it
  \<^verbatim>\<open>Optional[float]\<close>, so an integral total is the same number there.
\<close>

definition enrich_place :: "builtins \<Rightarrow> place \<Rightarrow> real \<Rightarrow> pyexc + place" where
  "enrich_place B place underrated_scale =
     (case calculate_dive_score B place of
        Inl e \<Rightarrow> Inl e
      | Inr place \<Rightarrow>
          (let place = place(''character_0_10'' \<mapsto> PFloat (character_0_10 B place));
               place = place(''diveiness_0_10'' \<mapsto> dict_get place ''character_0_10'');
               place = place(''quality_0_10'' \<mapsto> PFloat (quality_0_10 B place))
           in case underrated_0_10 B place underrated_scale of
                Inl e \<Rightarrow> Inl e
              | Inr u \<Rightarrow>
                  (let place = place(''underrated_0_10'' \<mapsto> PFloat u);
                       place = place(''blended_0_10'' \<mapsto> opt_val (blended_0_10 B place))
                   in Inr place)))"

section \<open>Cohort percentile normalizer\<close>

definition sort_value :: "pyval \<Rightarrow> real" where
  \<comment> \<open>the sort key \<^verbatim>\<open>x[1]\<close>; numbers of the three numeric types compare by value\<close>
  "sort_value v = (case py_num v of Some r \<Rightarrow> r | None \<Rightarrow> 0)"

definition write_rank ::
    "string \<Rightarrow> real \<Rightarrow> real \<Rightarrow> nat \<Rightarrow> nat \<times> nat \<times> pyval \<Rightarrow> place list \<Rightarrow> place list" where
  \<comment> \<open>one round of the loop over \<^verbatim>\<open>enumerate(values)\<close>\<close>
  "write_rank field target_min target_max n = (\<lambda>(rank, (idx, _)) places.
     (let percentile = real rank / real (n - 1);
          new_score = target_min + percentile * (target_max - target_min)
      in places[idx := (places ! idx)(field \<mapsto> PFloat (py_round1 new_score))]))"

definition normalize_to_percentile ::
    "place list \<Rightarrow> string \<Rightarrow> real \<Rightarrow> real \<Rightarrow> place list" where
  "normalize_to_percentile places field target_min target_max =
     (let values = map (\<lambda>(i, p). (i, dict_get p field)) (enumerate 0 places);
          values = filter (\<lambda>(i, v). is_number v) values
      in if length values < 2 then places
         else (let values = sort_key (\<lambda>x. sort_value (snd x)) values;
                   n = length values
               in fold (write_rank field target_min target_max n) (enumerate 0 values) places))"

section \<open>The scoring pass shared by the endpoints\<close>

fun map_result :: "('a \<Rightarrow> 'e + 'b) \<Rightarrow> 'a list \<Rightarrow> 'e + 'b list" where
  \<comment> \<open>a list comprehension whose body may raise: the first exception ends it\<close>
  "map_result f [] = Inr []"
| "map_result f (x # xs) =
     (case f x of
        Inl e \<Rightarrow> Inl e
      | Inr y \<Rightarrow> (case map_result f xs of Inl e \<Rightarrow> Inl e | Inr ys \<Rightarrow> Inr (y # ys)))"

definition reblend :: "builtins \<Rightarrow> place \<Rightarrow> place" where
  \<comment> \<open>\<^verbatim>\<open>place["blended_0_10"] = blended_0_10(place)\<close>\<close>
  "reblend B place = place(''blended_0_10'' \<mapsto> opt_val (blended_0_10 B place))"

definition score_cohort :: "builtins \<Rightarrow> place list \<Rightarrow> real \<Rightarrow> pyexc + place list" where
  \<comment> \<open>enrich, normalize each lens, recalculate blended: the block that
      \<^verbatim>\<open>get_locations\<close>, \<^verbatim>\<open>get_vibes\<close> and \<^verbatim>\<open>get_locations_custom\<close> all run\<close>
  "score_cohort B results underrated_scale =
     (case map_result (\<lambda>place. enrich_place B place underrated_scale) results of
        Inl e \<Rightarrow> Inl e
      | Inr enriched_results \<Rightarrow>
          (let enriched_results = normalize_to_percentile enriched_results ''quality_0_10'' 2.0 9.5;
               enriched_results = normalize_to_percentile enriched_results ''character_0_10'' 2.0 9.5;
               enriched_results = normalize_to_percentile enriched_results ''underrated_0_10'' 2.0 9.5
           in Inr (map (reblend B) enriched_results)))"

section \<open>Custom-lens endpoint\<close>











fun filter_result :: "('a \<Rightarrow> 'e + bool) \<Rightarrow> 'a list \<Rightarrow> 'e + 'a list" where
  \<comment> \<open>a filtering comprehension whose test may raise\<close>
  "filter_result f [] = Inr []"
| "filter_result f (x # xs) =
     (case f x of
        Inl e \<Rightarrow> Inl e
      | Inr b \<Rightarrow>
          (case filter_result f xs of
             Inl e \<Rightarrow> Inl e
           | Inr ys \<Rightarrow> Inr (if b then x # ys else ys)))"





section \<open>Vocabulary for the normalizer's properties\<close>

definition numeric_values :: "place list \<Rightarrow> string \<Rightarrow> (nat \<times> pyval) list" where
  \<comment> \<open>the (index, value) pairs the normalizer collects\<close>
  "numeric_values places field =
     filter (\<lambda>(i, v). is_number v) (map (\<lambda>(i, p). (i, dict_get p field)) (enumerate 0 places))"

definition rank_score :: "real \<Rightarrow> real \<Rightarrow> nat \<Rightarrow> nat \<Rightarrow> real" where
  \<comment> \<open>the score written for a rank among \<open>n\<close> collected values\<close>
  "rank_score target_min target_max n rank =
     py_round1 (target_min + (real rank / real (n - 1)) * (target_max - target_min))"

definition field_num :: "place \<Rightarrow> string \<Rightarrow> real option" where
  \<comment> \<open>the number a place holds under a key, if it holds one\<close>
  "field_num p field = py_num (dict_get p field)"

definition lens_ok :: "place \<Rightarrow> bool" where
  \<comment> \<open>the three sub-scores are floats in [0, 10]\<close>
  "lens_ok p =
     ((\<exists>q. p ''quality_0_10'' = Some (PFloat q) \<and> 0 \<le> q \<and> q \<le> 10)
      \<and> (\<exists>c. p ''character_0_10'' = Some (PFloat c) \<and> 0 \<le> c \<and> c \<le> 10)
      \<and> (\<exists>u. p ''underrated_0_10'' = Some (PFloat u) \<and> 0 \<le> u \<and> u \<le> 10))"

definition dive_ok :: "place \<Rightarrow> bool" where
  \<comment> \<open>score, grade and label come from one clamped total\<close>
  "dive_ok p =
     (\<exists>t. 0 \<le> t \<and> t \<le> 100
        \<and> p ''dive_score'' = Some (PFloat (py_round1 t))
        \<and> p ''dive_grade'' = Some (PStr (dive_grade_of t))
        \<and> p ''gem_label'' = Some (PStr (gem_label_of t)))"

definition computed_keys :: "string set" where
  \<comment> \<open>the keys \<^verbatim>\<open>enrich_place\<close> writes\<close>
  "computed_keys =
     {''dive_score'', ''dive_grade'', ''gem_label'', ''character_0_10'', ''diveiness_0_10'',
      ''quality_0_10'', ''underrated_0_10'', ''blended_0_10''}"

definition agree_off :: "string set \<Rightarrow> place \<Rightarrow> place \<Rightarrow> bool" where
  \<comment> \<open>two places hold the same value under every key outside \<open>K\<close>\<close>
  "agree_off K p' p = (\<forall>k. k \<notin> K \<longrightarrow> p' k = p k)"

definition renormalized_mean :: "(real \<times> real) list \<Rightarrow> real option" where
  \<comment> \<open>the mean of the scores under their weights renormalized to sum to 1, rounded to
      one decimal; absent when there is no score\<close>
  "renormalized_mean sws =
     (if sws = [] then None
      else Some (py_round1 (sum_list (map (\<lambda>(s, w). s * (w / sum_list (map snd sws))) sws))))"

definition present_components :: "place \<Rightarrow> (real \<times> real) list" where
  \<comment> \<open>the numeric sub-scores of a place, each with its blend weight\<close>
  "present_components p =
     (case field_num p ''quality_0_10'' of Some q \<Rightarrow> [(q, 0.40)] | None \<Rightarrow> [])
     @ (case field_num p ''character_0_10'' of Some c \<Rightarrow> [(c, 0.35)] | None \<Rightarrow> [])
     @ (case field_num p ''underrated_0_10'' of Some u \<Rightarrow> [(u, 0.25)] | None \<Rightarrow> [])"

definition normalize_lenses :: "place list \<Rightarrow> place list" where
  \<comment> \<open>the three normalizer calls of the scoring pass, in their order\<close>
  "normalize_lenses ps =
     normalize_to_percentile
       (normalize_to_percentile
          (normalize_to_percentile ps ''quality_0_10'' 2.0 9.5) ''character_0_10'' 2.0 9.5)
       ''underrated_0_10'' 2.0 9.5"

section \<open>Example inputs\<close>

definition no_parse :: builtins where
  \<comment> \<open>an interpreter on which no string is a numeral; the examples hold no strings
      in numeric positions\<close>
  "no_parse = \<lparr>str_float = (\<lambda>_. None), str_int = (\<lambda>_. None)\<rparr>"


definition food_place :: place where
  "food_place = [''avg_food_drink_quality'' \<mapsto> PFloat 0.8]"

definition residual_place :: place where
  \<comment> \<open>no review signals, a residual of 0.35 under the older name\<close>
  "residual_place = [''ml_metadata'' \<mapsto> PDict [(''residual'', PFloat 0.35)]]"

definition zero_residual_place :: place where
  "zero_residual_place = [''ml_metadata'' \<mapsto> PDict [(''residual_deep'', PInt 0)]]"

definition both_residuals :: pyval where
  \<comment> \<open>the two models disagree: the baseline says under-, the deep one over-performing\<close>
  "both_residuals = PDict [(''residual'', PFloat (- 0.5)), (''residual_deep'', PFloat 0.5)]"

definition conflicted_place :: place where
  "conflicted_place =
     [''rating'' \<mapsto> PFloat 4.5, ''user_ratings_total'' \<mapsto> PInt 100,
      ''price_level'' \<mapsto> PInt 2, ''ml_metadata'' \<mapsto> both_residuals]"

definition three_places :: "place list" where
  \<comment> \<open>a cohort with raw quality 5.0, 7.0 and 9.0\<close>
  "three_places =
     [[''quality_0_10'' \<mapsto> PFloat 5.0], [''quality_0_10'' \<mapsto> PFloat 7.0],
      [''quality_0_10'' \<mapsto> PFloat 9.0]]"

definition cohort77 :: "place list" where
  \<comment> \<open>77 places whose raw quality is 0, 1, ..., 76\<close>
  "cohort77 = map (\<lambda>k. [''quality_0_10'' \<mapsto> PInt (int k)]) [0..<77]"

definition bar_a :: place where
  "bar_a =
     [''rating'' \<mapsto> PFloat 4.5, ''user_ratings_total'' \<mapsto> PInt 200,
      ''review_count'' \<mapsto> PInt 30, ''price_level'' \<mapsto> PInt 2,
      ''avg_food_drink_quality'' \<mapsto> PFloat 0.9, ''avg_would_recommend'' \<mapsto> PFloat 0.9,
      ''avg_authenticity'' \<mapsto> PFloat 0.7, ''avg_classic_institution'' \<mapsto> PFloat 0.6,
      ''avg_unpretentious'' \<mapsto> PFloat 0.5]"

definition bar_b :: place where
  "bar_b =
     [''rating'' \<mapsto> PFloat 4.0, ''user_ratings_total'' \<mapsto> PInt 50,
      ''review_count'' \<mapsto> PInt 20, ''price_level'' \<mapsto> PInt 1,
      ''avg_food_drink_quality'' \<mapsto> PFloat 0.5, ''avg_would_recommend'' \<mapsto> PFloat 0.6,
      ''avg_authenticity'' \<mapsto> PFloat 0.9, ''avg_classic_institution'' \<mapsto> PFloat 0.8,
      ''avg_unpretentious'' \<mapsto> PFloat 0.9]"

definition near_gem :: place where
  \<comment> \<open>a rating of 4.496 on 100 ratings at price tier 2\<close>
  "near_gem =
     [''rating'' \<mapsto> PFloat 4.496, ''user_ratings_total'' \<mapsto> PInt 100,
      ''price_level'' \<mapsto> PInt 2]"

definition enriched_a :: place where
  \<comment> \<open>\<open>bar_a\<close> as \<^verbatim>\<open>enrich_place\<close> leaves it\<close>
  "enriched_a =
     bar_a(''dive_score'' \<mapsto> PFloat 85, ''dive_grade'' \<mapsto> PStr ''A'',
           ''gem_label'' \<mapsto> PStr (gem_label_of 85),
           ''character_0_10'' \<mapsto> PFloat 5.1, ''diveiness_0_10'' \<mapsto> PFloat 5.1,
           ''quality_0_10'' \<mapsto> PFloat 7.6, ''underrated_0_10'' \<mapsto> PFloat 5.0,
           ''blended_0_10'' \<mapsto> PFloat 6.1)"

definition enriched_b :: place where
  "enriched_b =
     bar_b(''dive_score'' \<mapsto> PFloat 90, ''dive_grade'' \<mapsto> PStr ''A'',
           ''gem_label'' \<mapsto> PStr (gem_label_of 90),
           ''character_0_10'' \<mapsto> PFloat 7.0, ''diveiness_0_10'' \<mapsto> PFloat 7.0,
           ''quality_0_10'' \<mapsto> PFloat 5.3, ''underrated_0_10'' \<mapsto> PFloat 5.0,
           ''blended_0_10'' \<mapsto> PFloat 5.8)"

definition scored_a :: place where
  \<comment> \<open>\<open>bar_a\<close> at the end of the scoring pass over the cohort \<open>[bar_a, bar_b]\<close>\<close>
  "scored_a =
     enriched_a(''quality_0_10'' \<mapsto> PFloat 9.5, ''character_0_10'' \<mapsto> PFloat 2.0,
                ''underrated_0_10'' \<mapsto> PFloat 2.0, ''blended_0_10'' \<mapsto> PFloat 5.0)"

definition scored_b :: place where
  "scored_b =
     enriched_b(''quality_0_10'' \<mapsto> PFloat 2.0, ''character_0_10'' \<mapsto> PFloat 9.5,
                ''underrated_0_10'' \<mapsto> PFloat 9.5, ''blended_0_10'' \<mapsto> PFloat 6.5)"




section \<open>The custom score as the specification words it\<close>



section \<open>Rounding to one decimal\<close>

lemma round_half_even_of_int: "round_half_even (of_int n) = n"
  by (simp add: round_half_even_def)

lemma round_half_even_mono:
  assumes "x \<le> y" shows "round_half_even x \<le> round_half_even y"
proof -
  have fl: "\<lfloor>x\<rfloor> \<le> \<lfloor>y\<rfloor>" using assms by (rule floor_mono)
  have lo: "\<lfloor>y\<rfloor> \<le> round_half_even y" by (simp add: round_half_even_def Let_def)
  have hi: "round_half_even x \<le> \<lfloor>x\<rfloor> + 1" by (simp add: round_half_even_def Let_def)
  show ?thesis
  proof (cases "\<lfloor>x\<rfloor> = \<lfloor>y\<rfloor>")
    case True
    then show ?thesis using assms by (auto simp: round_half_even_def Let_def)
  next
    case False
    then have "\<lfloor>x\<rfloor> + 1 \<le> \<lfloor>y\<rfloor>" using fl by linarith
    then show ?thesis using lo hi by linarith
  qed
qed

lemma py_round1_mono: "x \<le> y \<Longrightarrow> py_round1 x \<le> py_round1 y"
  by (simp add: py_round1_def round_half_even_mono divide_right_mono)

lemma py_round1_tenth: "py_round1 (of_int m / 10) = of_int m / 10"
  by (simp add: py_round1_def round_half_even_of_int)

lemma py_round1_le: "x \<le> of_int m / 10 \<Longrightarrow> py_round1 x \<le> of_int m / 10"
  using py_round1_mono [of x "of_int m / 10"] by (simp add: py_round1_tenth)

lemma py_round1_ge: "of_int m / 10 \<le> x \<Longrightarrow> of_int m / 10 \<le> py_round1 x"
  using py_round1_mono [of "of_int m / 10" x] by (simp add: py_round1_tenth)

lemma py_round1_range:
  "of_int a / 10 \<le> x \<Longrightarrow> x \<le> of_int b / 10 \<Longrightarrow>
   of_int a / 10 \<le> py_round1 x \<and> py_round1 x \<le> of_int b / 10"
  using py_round1_le py_round1_ge by blast

lemma py_round1_0_10: "0 \<le> x \<Longrightarrow> x \<le> 10 \<Longrightarrow> 0 \<le> py_round1 x \<and> py_round1 x \<le> 10"
  using py_round1_range [of 0 x 100] by simp

lemma py_round1_int: "py_round1 (of_int m) = of_int m"
  using py_round1_tenth [of "m * 10"] by simp

lemma clamp_range: "lo \<le> hi \<Longrightarrow> lo \<le> clamp x lo hi \<and> clamp x lo hi \<le> hi"
  by (simp add: clamp_def)


section \<open>Sub-score ranges and the sparse-data guardrail\<close>


lemma guardrail_range:
  "0 \<le> py_round1 (clamp x 0.0 10.0) \<and> py_round1 (clamp x 0.0 10.0) \<le> 10"
  using py_round1_0_10 [of "clamp x 0 10"] clamp_range [of 0 10 x] by simp



lemma quality_range: "0 \<le> quality_0_10 B p \<and> quality_0_10 B p \<le> 10"
  unfolding quality_0_10_def Let_def by (rule guardrail_range)

lemma character_range: "0 \<le> character_0_10 B p \<and> character_0_10 B p \<le> 10"
  unfolding character_0_10_def Let_def by (rule guardrail_range)



section \<open>Custom lens: validation and score\<close>
















section \<open>The ML residual: which key is read\<close>

lemma read_residual_precedence:
  "read_residual (PDict md) =
     Inr (case map_of md ''residual_deep'' of
            None \<Rightarrow> (case map_of md ''residual'' of None \<Rightarrow> PNone | Some v \<Rightarrow> v)
          | Some d \<Rightarrow> if d = PNone
                      then (case map_of md ''residual'' of None \<Rightarrow> PNone | Some v \<Rightarrow> v)
                      else d)"
  by (simp add: read_residual_def py_get_def split: option.splits)

lemma exp_7_lower: "(199::real) \<le> exp 7"
proof -
  have "(3/2::real) \<le> exp (1/2)" using exp_ge_add_one_self [of "1/2::real"] by simp
  then have "(3/2::real) ^ 14 \<le> exp (1/2) ^ 14" by (rule power_mono) simp
  moreover have "exp (1/2::real) ^ 14 = exp 7"
    using exp_of_nat_mult [of 14 "1/2::real"] by simp
  moreover have "(199::real) \<le> (3/2) ^ 14" by (simp add: power_divide)
  ultimately show ?thesis by linarith
qed

lemma tanh_35_lower: "(99/100::real) \<le> tanh (7/2)"
proof -
  have aux: "0 < e \<Longrightarrow> e \<le> 1 / 199 \<Longrightarrow> 99/100 \<le> (1 - e) / (1 + e)" for e :: real
    by (simp add: pos_le_divide_eq)
  have e: "(199::real) \<le> exp 7" by (rule exp_7_lower)
  have inv: "exp (- 7::real) = 1 / exp 7" by (simp add: exp_minus inverse_eq_divide)
  have "exp (- 7::real) \<le> 1 / 199"
    unfolding inv using e by (simp add: field_simps)
  moreover have "(0::real) < exp (- 7)" by simp
  moreover have "tanh (7/2::real) = (1 - exp (- 7)) / (1 + exp (- 7))"
    using tanh_real_altdef [of "7/2"] by simp
  ultimately show ?thesis using aux by simp
qed

lemma round_near_ten: "995/100 \<le> x \<Longrightarrow> x \<le> 10 \<Longrightarrow> py_round1 x = 10"
proof -
  assume a: "995/100 \<le> x" and b: "x \<le> 10"
  have "py_round1 (995/100) = 10" by (simp add: py_round1_def round_half_even_def)
  then have "10 \<le> py_round1 x" using py_round1_mono [OF a] by simp
  moreover have "py_round1 x \<le> 10" using py_round1_le [of x 100] b by simp
  ultimately show ?thesis by simp
qed


lemma fallback_when_missing:
  "safe_float B (dict_get p ''avg_would_recommend'') None = None
     \<or> safe_float B (dict_get p ''avg_openai_sentiment'') None = None
   \<Longrightarrow> underrated_0_10 B p scale = underrated_fallback B p scale"
  by (auto simp: underrated_0_10_def Let_def split: option.splits)

lemma fallback_value:
  "read_residual (py_or (dict_get p ''ml_metadata'') (PDict [])) = Inr r \<Longrightarrow>
   underrated_fallback B p scale =
     Inr (if r = PNone then 5.0
          else py_round1 (clamp (5.0 + 5.0 * tanh (safe_float_num B r 0.0 / max 0.10 scale)) 0.0 10.0))"
  by (simp add: underrated_fallback_def Let_def)

lemma py_round1_5: "py_round1 5 = 5"
  using py_round1_int [of 5] by simp

lemma underrated_fallback_eq:
  assumes "safe_float B (dict_get p ''avg_would_recommend'') None = None
           \<or> safe_float B (dict_get p ''avg_openai_sentiment'') None = None"
    and "read_residual (py_or (dict_get p ''ml_metadata'') (PDict [])) = Inr r"
  shows "underrated_0_10 B p s =
     Inr (if r = PNone then 5.0
          else py_round1 (clamp (5.0 + 5.0 * tanh (safe_float_num B r 0.0 / max 0.10 s)) 0.0 10.0))"
  using fallback_when_missing [OF assms(1)] fallback_value [OF assms(2)] by simp

lemma residual_35_rounds_to_10:
  "py_round1 (clamp (5.0 + 5.0 * tanh (safe_float_num B (PFloat 0.35) 0.0 / max 0.10 0.10))
                 0.0 10.0) = 10"
proof -
  have q: "safe_float_num B (PFloat 0.35) 0.0 / max 0.10 0.10 = (7/2::real)"
    by (simp add: safe_float_num_def py_float_def)
  have lo: "(995/100::real) \<le> 5 + 5 * tanh (7/2)" using tanh_35_lower by simp
  have hi: "5 + 5 * tanh (7/2::real) \<le> 10" using tanh_real_lt_1 [of "7/2"] by simp
  have "clamp (5 + 5 * tanh (7/2)) 0 10 = 5 + 5 * tanh (7/2)"
    using lo hi by (simp add: clamp_def)
  then show ?thesis unfolding q using round_near_ten [OF lo hi] by simp
qed

lemma residual_place_reads:
  "safe_float no_parse (dict_get residual_place ''avg_would_recommend'') None = None"
  "read_residual (py_or (dict_get residual_place ''ml_metadata'') (PDict [])) = Inr (PFloat 0.35)"
  by (simp_all add: residual_place_def dict_get_def safe_float_def py_float_def py_or_def
      truthy_def read_residual_def py_get_def)

lemma zero_residual_place_reads:
  "safe_float no_parse (dict_get zero_residual_place ''avg_would_recommend'') None = None"
  "read_residual (py_or (dict_get zero_residual_place ''ml_metadata'') (PDict [])) = Inr (PInt 0)"
  by (simp_all add: zero_residual_place_def dict_get_def safe_float_def py_float_def py_or_def
      truthy_def read_residual_def py_get_def)

lemma food_place_reads:
  "safe_float no_parse (dict_get food_place ''avg_would_recommend'') None = None"
  "read_residual (py_or (dict_get food_place ''ml_metadata'') (PDict [])) = Inr PNone"
  by (simp_all add: food_place_def dict_get_def safe_float_def py_float_def py_or_def
      truthy_def read_residual_def py_get_def)

text \<open>
  Claim C6, as stated, fails at its own example: with scale 0.10 and a residual of 0.35
  the fallback returns 10.0, since \<open>5 + 5 * tanh 3.5\<close> exceeds 9.95 (it is about 9.99, not
  9.79) and is then rounded to one decimal.
\<close>
theorem underrated_example_is_ten:
  "underrated_0_10 no_parse residual_place 0.10 = Inr 10.0
   \<and> underrated_0_10 no_parse residual_place 0.10 \<noteq> Inr 9.8
   \<and> (9.95::real) \<le> 5 + 5 * tanh 3.5"
proof -
  have "underrated_0_10 no_parse residual_place 0.10 = Inr 10.0"
    using underrated_fallback_eq [of no_parse residual_place "PFloat 0.35" "0.10"]
      residual_place_reads residual_35_rounds_to_10 [of no_parse]
    by simp
  moreover have "(9.95::real) \<le> 5 + 5 * tanh 3.5" using tanh_35_lower by simp
  ultimately show ?thesis by simp
qed

text \<open>
  Claim C6, amended. For a place that lacks the would-recommend or the sentiment signal,
  with \<open>r\<close> the residual read from \<^verbatim>\<open>ml_metadata\<close> (\<^verbatim>\<open>residual_deep\<close>, else \<^verbatim>\<open>residual\<close>):
  no residual under either name gives the neutral 5.0; a residual of 0 gives exactly 5.0
  for every scale; any other residual gives \<open>5 + 5 * tanh (r / max 0.10 scale)\<close>, clamped to
  [0, 10] and rounded to one decimal; and with scale 0.10 and residual 0.35 that is 10.0.
\<close>
theorem underrated_fallback_values:
  assumes "safe_float B (dict_get p ''avg_would_recommend'') None = None
           \<or> safe_float B (dict_get p ''avg_openai_sentiment'') None = None"
    and "read_residual (py_or (dict_get p ''ml_metadata'') (PDict [])) = Inr r"
  shows "(r = PNone \<longrightarrow> underrated_0_10 B p scale = Inr 5.0)
     \<and> (r \<noteq> PNone \<and> safe_float_num B r 0.0 = 0 \<longrightarrow> underrated_0_10 B p scale = Inr 5.0)
     \<and> (r \<noteq> PNone \<longrightarrow> underrated_0_10 B p scale
           = Inr (py_round1 (clamp (5.0 + 5.0 * tanh (safe_float_num B r 0.0 / max 0.10 scale))
                               0.0 10.0)))
     \<and> (r = PFloat 0.35 \<longrightarrow> underrated_0_10 B p 0.10 = Inr 10.0)"
proof -
  note u = underrated_fallback_eq [OF assms]
  have zero: "py_round1 (clamp (5.0 + 5.0 * tanh (0 / max 0.10 scale)) 0.0 10.0) = 5"
    by (simp add: clamp_def py_round1_5)
  show ?thesis using zero residual_35_rounds_to_10 [of B] by (simp add: u)
qed

theorem underrated_fallback_values_witness:
  "safe_float no_parse (dict_get residual_place ''avg_would_recommend'') None = None
   \<and> read_residual (py_or (dict_get residual_place ''ml_metadata'') (PDict [])) = Inr (PFloat 0.35)
   \<and> underrated_0_10 no_parse residual_place 0.10 = Inr 10.0
   \<and> read_residual (py_or (dict_get zero_residual_place ''ml_metadata'') (PDict [])) = Inr (PInt 0)
   \<and> safe_float_num no_parse (PInt 0) 0.0 = 0
   \<and> underrated_0_10 no_parse zero_residual_place 0.35 = Inr 5.0
   \<and> read_residual (py_or (dict_get food_place ''ml_metadata'') (PDict [])) = Inr PNone
   \<and> underrated_0_10 no_parse food_place 0.35 = Inr 5.0"
proof -
  have z: "safe_float_num no_parse (PInt 0) 0.0 = 0"
    by (simp add: safe_float_num_def py_float_def)
  note a = underrated_fallback_values [of no_parse residual_place "PFloat 0.35" "0.10",
      OF disjI1, OF residual_place_reads]
  note b = underrated_fallback_values [of no_parse zero_residual_place "PInt 0" "0.35",
      OF disjI1, OF zero_residual_place_reads]
  note c = underrated_fallback_values [of no_parse food_place PNone "0.35",
      OF disjI1, OF food_place_reads]
  have a': "underrated_0_10 no_parse residual_place 0.10 = Inr 10.0" using a by blast
  have b': "underrated_0_10 no_parse zero_residual_place 0.35 = Inr 5.0" using b z by blast
  have c': "underrated_0_10 no_parse food_place 0.35 = Inr 5.0" using c by blast
  show ?thesis
    using a' b' c' z residual_place_reads zero_residual_place_reads food_place_reads by blast
qed

lemma conflicted_reads:
  "dict_get conflicted_place ''rating'' = PFloat 4.5"
  "dict_get conflicted_place ''user_ratings_total'' = PInt 100"
  "dict_get conflicted_place ''price_level'' = PInt 2"
  "dict_get conflicted_place ''ml_metadata'' = both_residuals"
  by (simp_all add: conflicted_place_def dict_get_def)

lemma both_residuals_read:
  "read_residual both_residuals = Inr (PFloat 0.5)"
  "dive_residual no_parse both_residuals = Inr (- 0.5)"
  by (simp_all add: both_residuals_def read_residual_def dive_residual_def py_get_def py_float_def)

lemma conflicted_totals:
  "dive_total (9/2) 100 (PInt 2) (- (1/2)) = 80"
  "dive_total (9/2) 100 (PInt 2) (1/2) = 95"
  by (simp_all add: dive_total_def rating_score_of_def review_score_of_def price_score_of_def
      ml_bonus_of_def py_num_def)

lemma py_or_simps:
  "py_or PNone d = d"
  "py_or (PFloat r) d = (if r \<noteq> 0 then PFloat r else d)"
  "py_or (PInt i) d = (if i \<noteq> 0 then PInt i else d)"
  "py_or (PDict kvs) d = (if kvs \<noteq> [] then PDict kvs else d)"
  by (simp_all add: py_or_def truthy_def)

lemma py_num_simps:
  "py_num PNone = None"
  "py_num (PFloat r) = Some r"
  "py_num (PInt i) = Some (of_int i)"
  by (simp_all add: py_num_def)

lemma conflicted_or: "py_or both_residuals d = both_residuals"
  by (simp add: py_or_simps both_residuals_def)

text \<open>
  Claim C5 at a place whose \<^verbatim>\<open>ml_metadata\<close> holds both keys, \<^verbatim>\<open>residual = -0.5\<close> and
  \<^verbatim>\<open>residual_deep = 0.5\<close>: the Underrated fallback reads 0.5, the newer key, while
  \<^verbatim>\<open>calculate_dive_score\<close> reads -0.5, the older one, and so reports 80 and grade B where
  the newer residual would give 95 and grade A.
\<close>
theorem dive_score_reads_older_residual_first:
  "read_residual both_residuals = Inr (PFloat 0.5)
   \<and> dive_residual no_parse both_residuals = Inr (- 0.5)
   \<and> (\<exists>p. calculate_dive_score no_parse conflicted_place = Inr p
          \<and> p ''dive_score'' = Some (PFloat 80) \<and> p ''dive_grade'' = Some (PStr ''B''))
   \<and> dive_total 4.5 100 (PInt 2) 0.5 = 95
   \<and> dive_grade_of 95 = ''A''"
proof -
  have "calculate_dive_score no_parse conflicted_place
      = Inr (conflicted_place(''dive_score'' \<mapsto> PFloat (py_round1 80),
                               ''dive_grade'' \<mapsto> PStr (dive_grade_of 80),
                               ''gem_label'' \<mapsto> PStr (gem_label_of 80)))"
    by (simp add: calculate_dive_score_def conflicted_reads conflicted_or py_or_simps
        both_residuals_read py_num_simps conflicted_totals Let_def)
  moreover have "py_round1 80 = 80" using py_round1_int [of 80] by simp
  moreover have "dive_grade_of 80 = ''B''" "dive_grade_of 95 = ''A''"
    by (simp_all add: dive_grade_of_def)
  ultimately show ?thesis
    using both_residuals_read conflicted_totals by simp
qed

section \<open>The normalizer, element by element\<close>

lemma write_rank_length [simp]: "length (write_rank f a b n e ps) = length ps"
  by (cases e) (auto simp: write_rank_def Let_def)

lemma fold_write_rank_length [simp]: "length (fold (write_rank f a b n) es ps) = length ps"
  by (induction es arbitrary: ps) auto

lemma write_rank_nth:
  "write_rank f a b n (r, (idx, v)) ps ! i =
     (if i = idx \<and> idx < length ps then (ps ! i)(f \<mapsto> PFloat (rank_score a b n r)) else ps ! i)"
  by (cases "idx < length ps")
     (auto simp: write_rank_def Let_def rank_score_def nth_list_update list_update_beyond)

lemma fold_write_rank_other:
  "i \<notin> (fst \<circ> snd) ` set es \<Longrightarrow> fold (write_rank f a b n) es ps ! i = ps ! i"
proof (induction es arbitrary: ps)
  case Nil
  then show ?case by simp
next
  case (Cons e es)
  obtain r idx v where e: "e = (r, (idx, v))" by (cases e) auto
  from Cons.prems have "i \<noteq> idx" and rest: "i \<notin> (fst \<circ> snd) ` set es" by (auto simp: e)
  then show ?case using Cons.IH [OF rest] by (simp add: e write_rank_nth)
qed

lemma fold_write_rank_hit:
  assumes "distinct (map (\<lambda>e. fst (snd e)) es)" and "(r, (i, v)) \<in> set es" and "i < length ps"
  shows "fold (write_rank f a b n) es ps ! i = (ps ! i)(f \<mapsto> PFloat (rank_score a b n r))"
  using assms
proof (induction es arbitrary: ps)
  case Nil
  then show ?case by simp
next
  case (Cons e es)
  obtain r' idx v' where e: "e = (r', (idx, v'))" by (cases e) auto
  show ?case
  proof (cases "(r, (i, v)) = e")
    case True
    then have "i \<notin> (fst \<circ> snd) ` set es" using Cons.prems(1) by (auto simp: e)
    then show ?thesis
      using True Cons.prems(3) by (simp add: e fold_write_rank_other write_rank_nth)
  next
    case False
    then have mem: "(r, (i, v)) \<in> set es" using Cons.prems(2) by simp
    then have "i \<in> (fst \<circ> snd) ` set es" by force
    then have "i \<noteq> idx" using Cons.prems(1) by (auto simp: e)
    moreover have "distinct (map (\<lambda>e. fst (snd e)) es)" using Cons.prems(1) by simp
    ultimately show ?thesis
      using Cons.IH [OF _ mem, of "write_rank f a b n e ps"] Cons.prems(3)
      by (simp add: e write_rank_nth)
  qed
qed

lemma enumerate_field:
  "map (\<lambda>(i, p). (i, dict_get p f)) (enumerate 0 ps)
     = map (\<lambda>i. (i, dict_get (ps ! i) f)) [0..<length ps]"
  by (rule nth_equalityI) (simp_all add: nth_enumerate_eq)

lemma numeric_values_iff:
  "(i, v) \<in> set (numeric_values ps f)
     \<longleftrightarrow> i < length ps \<and> v = dict_get (ps ! i) f \<and> is_number v"
  by (auto simp: numeric_values_def enumerate_field)

lemma numeric_values_distinct: "distinct (map fst (numeric_values ps f))"
proof -
  have "map fst (map (\<lambda>i. (i, dict_get (ps ! i) f)) [0..<length ps]) = [0..<length ps]"
    by (simp add: comp_def)
  then have "distinct (map fst (map (\<lambda>i. (i, dict_get (ps ! i) f)) [0..<length ps]))"
    by (simp del: map_map)
  then show ?thesis
    unfolding numeric_values_def enumerate_field by (rule distinct_map_filter)
qed

lemma sorted_values_distinct:
  "distinct (map fst (sort_key k (numeric_values ps f)))"
proof -
  have "mset (map fst (sort_key k (numeric_values ps f))) = mset (map fst (numeric_values ps f))"
    by simp
  then show ?thesis
    using numeric_values_distinct [of ps f] by (metis mset_eq_imp_distinct_iff)
qed

lemma enumerate_snd_fst: "map (\<lambda>e. fst (snd e)) (enumerate 0 xs) = map fst xs"
  by (rule nth_equalityI) (simp_all add: nth_enumerate_eq)

lemma enumerate_mem: "(r, x) \<in> set (enumerate 0 xs) \<Longrightarrow> x \<in> set xs"
  by (auto simp: in_set_enumerate_eq)

lemma normalize_unfold:
  "normalize_to_percentile ps f a b =
     (if length (numeric_values ps f) < 2 then ps
      else fold (write_rank f a b (length (numeric_values ps f)))
             (enumerate 0 (sort_key (\<lambda>x. sort_value (snd x)) (numeric_values ps f))) ps)"
  by (simp add: normalize_to_percentile_def numeric_values_def Let_def)

lemma normalize_length [simp]: "length (normalize_to_percentile ps f a b) = length ps"
  by (simp add: normalize_unfold)

lemma normalize_noop:
  "length (numeric_values ps f) < 2 \<Longrightarrow> normalize_to_percentile ps f a b = ps"
  by (simp add: normalize_unfold)

lemma normalize_untouched:
  assumes "i < length ps" and "\<not> is_number (dict_get (ps ! i) f)"
  shows "normalize_to_percentile ps f a b ! i = ps ! i"
proof (cases "length (numeric_values ps f) < 2")
  case True
  then show ?thesis by (simp add: normalize_noop)
next
  case False
  have "i \<notin> (fst \<circ> snd) ` set (enumerate 0 (sort_key (\<lambda>x. sort_value (snd x)) (numeric_values ps f)))"
  proof
    assume "i \<in> (fst \<circ> snd) ` set (enumerate 0 (sort_key (\<lambda>x. sort_value (snd x)) (numeric_values ps f)))"
    then obtain r v where "(r, (i, v)) \<in> set (enumerate 0 (sort_key (\<lambda>x. sort_value (snd x)) (numeric_values ps f)))"
      by force
    then have "(i, v) \<in> set (sort_key (\<lambda>x. sort_value (snd x)) (numeric_values ps f))"
      by (rule enumerate_mem)
    then have "(i, v) \<in> set (numeric_values ps f)" by simp
    then show False using assms(2) by (auto simp: numeric_values_iff)
  qed
  then show ?thesis using False by (simp add: normalize_unfold fold_write_rank_other)
qed

lemma normalize_ranked:
  assumes "2 \<le> length (numeric_values ps f)"
    and "k < length (numeric_values ps f)"
    and "sort_key (\<lambda>x. sort_value (snd x)) (numeric_values ps f) ! k = (i, v)"
  shows "normalize_to_percentile ps f a b ! i
       = (ps ! i)(f \<mapsto> PFloat (rank_score a b (length (numeric_values ps f)) k))"
proof -
  let ?sv = "sort_key (\<lambda>x. sort_value (snd x)) (numeric_values ps f)"
  have len: "length ?sv = length (numeric_values ps f)" by simp
  have mem: "(k, (i, v)) \<in> set (enumerate 0 ?sv)"
    using assms(2,3) by (simp add: in_set_enumerate_eq)
  have "(i, v) \<in> set ?sv" using assms(2,3) len by (metis nth_mem)
  then have "(i, v) \<in> set (numeric_values ps f)" by simp
  then have i: "i < length ps" by (simp add: numeric_values_iff)
  have "map (\<lambda>e. fst (snd e)) (enumerate 0 ?sv) = map fst ?sv"
    by (rule enumerate_snd_fst)
  then have d: "distinct (map (\<lambda>e. fst (snd e)) (enumerate 0 ?sv))"
    using sorted_values_distinct [of "\<lambda>x. sort_value (snd x)" ps f] by simp
  show ?thesis
    using assms(1) fold_write_rank_hit [OF d mem i] by (simp add: normalize_unfold)
qed

lemma is_number_py_num: "is_number v \<longleftrightarrow> py_num v \<noteq> None"
  by (cases v) (simp_all add: is_number_def py_num_def)

lemma sort_value_num: "py_num v = Some x \<Longrightarrow> sort_value v = x"
  by (simp add: sort_value_def)

lemma rank_score_mono:
  assumes "a \<le> b" and "k \<le> k'"
  shows "rank_score a b n k \<le> rank_score a b n k'"
proof -
  have "real k / real (n - 1) \<le> real k' / real (n - 1)"
    using assms(2) by (simp add: divide_right_mono)
  then have "real k / real (n - 1) * (b - a) \<le> real k' / real (n - 1) * (b - a)"
    by (rule mult_right_mono) (use assms(1) in simp)
  then have "a + real k / real (n - 1) * (b - a) \<le> a + real k' / real (n - 1) * (b - a)"
    by (rule add_left_mono)
  then show ?thesis unfolding rank_score_def by (rule py_round1_mono)
qed

lemma rank_score_first: "rank_score a b n 0 = py_round1 a"
  by (simp add: rank_score_def)

lemma rank_score_last: "2 \<le> n \<Longrightarrow> rank_score a b n (n - 1) = py_round1 b"
  by (simp add: rank_score_def)

lemma rank_score_between:
  assumes "a \<le> b" and "k < n"
  shows "py_round1 a \<le> rank_score a b n k \<and> rank_score a b n k \<le> py_round1 b"
proof (cases "2 \<le> n")
  case True
  have "rank_score a b n 0 \<le> rank_score a b n k" using assms(1) by (rule rank_score_mono) simp
  then have lo: "py_round1 a \<le> rank_score a b n k" by (simp only: rank_score_first)
  have "rank_score a b n k \<le> rank_score a b n (n - 1)"
    using assms(1) by (rule rank_score_mono) (use assms(2) in simp)
  then have hi: "rank_score a b n k \<le> py_round1 b" by (simp only: rank_score_last [OF True])
  show ?thesis using lo hi by simp
next
  case False
  then have "k = 0" and "real (n - 1) = 0" using assms(2) by simp_all
  then have "rank_score a b n k = py_round1 a" by (simp add: rank_score_def)
  then show ?thesis using py_round1_mono [OF assms(1)] by simp
qed

lemma ranked_position:
  assumes "i < length ps" and "is_number (dict_get (ps ! i) f)"
  shows "\<exists>k < length (numeric_values ps f).
           sort_key (\<lambda>x. sort_value (snd x)) (numeric_values ps f) ! k = (i, dict_get (ps ! i) f)"
proof -
  have "(i, dict_get (ps ! i) f) \<in> set (numeric_values ps f)"
    using assms by (simp add: numeric_values_iff)
  then have "(i, dict_get (ps ! i) f)
      \<in> set (sort_key (\<lambda>x. sort_value (snd x)) (numeric_values ps f))" by simp
  then show ?thesis by (metis in_set_conv_nth length_sort)
qed

lemma normalize_nth_cases:
  assumes "i < length ps"
  shows "normalize_to_percentile ps f a b ! i = ps ! i
       \<or> (\<exists>k < length (numeric_values ps f). 2 \<le> length (numeric_values ps f)
            \<and> normalize_to_percentile ps f a b ! i
                = (ps ! i)(f \<mapsto> PFloat (rank_score a b (length (numeric_values ps f)) k)))"
proof (cases "is_number (dict_get (ps ! i) f) \<and> 2 \<le> length (numeric_values ps f)")
  case True
  then obtain k where k: "k < length (numeric_values ps f)"
      "sort_key (\<lambda>x. sort_value (snd x)) (numeric_values ps f) ! k = (i, dict_get (ps ! i) f)"
    using ranked_position [OF assms] by blast
  show ?thesis using normalize_ranked [OF _ k] True k(1) by blast
next
  case False
  then show ?thesis
    using normalize_untouched [OF assms] normalize_noop [of ps f a b] by fastforce
qed

lemma normalize_order:
  assumes n: "2 \<le> length (numeric_values ps f)" and ab: "a \<le> b"
    and i: "i < length ps" and j: "j < length ps"
    and x: "field_num (ps ! i) f = Some x" and y: "field_num (ps ! j) f = Some y"
    and xy: "x < y"
  shows "\<exists>x' y'. normalize_to_percentile ps f a b ! i = (ps ! i)(f \<mapsto> PFloat x')
            \<and> normalize_to_percentile ps f a b ! j = (ps ! j)(f \<mapsto> PFloat y') \<and> x' \<le> y'"
proof -
  let ?sv = "sort_key (\<lambda>x. sort_value (snd x)) (numeric_values ps f)"
  let ?n = "length (numeric_values ps f)"
  have ni: "is_number (dict_get (ps ! i) f)" and nj: "is_number (dict_get (ps ! j) f)"
    using x y by (simp_all add: is_number_py_num field_num_def)
  obtain ki where ki: "ki < ?n" "?sv ! ki = (i, dict_get (ps ! i) f)"
    using ranked_position [OF i ni] by blast
  obtain kj where kj: "kj < ?n" "?sv ! kj = (j, dict_get (ps ! j) f)"
    using ranked_position [OF j nj] by blast
  have srt: "sorted (map (\<lambda>x. sort_value (snd x)) ?sv)" by (rule sorted_sort_key)
  have vi: "sort_value (snd (?sv ! ki)) = x" using x ki(2) by (simp add: sort_value_num field_num_def)
  have vj: "sort_value (snd (?sv ! kj)) = y" using y kj(2) by (simp add: sort_value_num field_num_def)
  have "ki < kj"
  proof (rule ccontr)
    assume "\<not> ki < kj"
    then have "kj \<le> ki" by simp
    then have "map (\<lambda>x. sort_value (snd x)) ?sv ! kj \<le> map (\<lambda>x. sort_value (snd x)) ?sv ! ki"
      using srt ki(1) by (simp add: sorted_iff_nth_mono)
    then have "y \<le> x" using vi vj ki(1) kj(1) by simp
    then show False using xy by simp
  qed
  then have "rank_score a b ?n ki \<le> rank_score a b ?n kj"
    using rank_score_mono [OF ab, of ki kj ?n] by simp
  then show ?thesis
    using normalize_ranked [OF n ki] normalize_ranked [OF n kj] by blast
qed

lemma normalize_extremes:
  assumes n: "2 \<le> length (numeric_values ps f)"
  shows "(\<exists>i < length ps. normalize_to_percentile ps f a b ! i = (ps ! i)(f \<mapsto> PFloat (py_round1 a)))
       \<and> (\<exists>j < length ps. normalize_to_percentile ps f a b ! j = (ps ! j)(f \<mapsto> PFloat (py_round1 b)))"
proof -
  let ?sv = "sort_key (\<lambda>x. sort_value (snd x)) (numeric_values ps f)"
  let ?n = "length (numeric_values ps f)"
  have pos: "\<exists>i v. ?sv ! k = (i, v) \<and> i < length ps" if "k < ?n" for k
  proof -
    have "?sv ! k \<in> set ?sv" using that by (metis nth_mem length_sort)
    then have m: "?sv ! k \<in> set (numeric_values ps f)" by simp
    obtain i v where e: "?sv ! k = (i, v)" by (cases "?sv ! k")
    from m have "i < length ps" unfolding e by (simp add: numeric_values_iff)
    then show ?thesis using e by blast
  qed
  have z: "0 < ?n" and l: "?n - 1 < ?n" using n by linarith+
  then obtain i v j w where i: "?sv ! 0 = (i, v)" "i < length ps"
    and j: "?sv ! (?n - 1) = (j, w)" "j < length ps"
    using pos [of 0] pos [of "?n - 1"] by blast
  have "normalize_to_percentile ps f a b ! i = (ps ! i)(f \<mapsto> PFloat (py_round1 a))"
    using normalize_ranked [OF n z i(1), of a b] by (simp only: rank_score_first)
  moreover have "normalize_to_percentile ps f a b ! j = (ps ! j)(f \<mapsto> PFloat (py_round1 b))"
    using normalize_ranked [OF n l j(1), of a b] by (simp only: rank_score_last [OF n])
  ultimately show ?thesis using i(2) j(2) by blast
qed

lemma normalize_numeric_range:
  assumes n: "2 \<le> length (numeric_values ps f)" and ab: "a \<le> b"
    and i: "i < length ps" and x: "field_num (ps ! i) f \<noteq> None"
  shows "\<exists>x'. normalize_to_percentile ps f a b ! i = (ps ! i)(f \<mapsto> PFloat x')
            \<and> py_round1 a \<le> x' \<and> x' \<le> py_round1 b"
proof -
  have ni: "is_number (dict_get (ps ! i) f)" using x by (simp add: is_number_py_num field_num_def)
  obtain k where k: "k < length (numeric_values ps f)"
     "sort_key (\<lambda>x. sort_value (snd x)) (numeric_values ps f) ! k = (i, dict_get (ps ! i) f)"
    using ranked_position [OF i ni] by blast
  show ?thesis
    using normalize_ranked [OF n k] rank_score_between [OF ab k(1)] by blast
qed

section \<open>The normalizer on concrete cohorts\<close>

lemma py_round1_defaults: "py_round1 2.0 = 2.0" "py_round1 9.5 = 9.5" "py_round1 5.75 = 5.8"
  by (simp_all add: py_round1_def round_half_even_def)

lemma normalize_three:
  assumes "dict_get p0 f = PFloat 5.0" and "dict_get p1 f = PFloat 7.0"
    and "dict_get p2 f = PFloat 9.0"
  shows "normalize_to_percentile [p0, p1, p2] f 2.0 9.5
       = [p0(f \<mapsto> PFloat 2.0), p1(f \<mapsto> PFloat 5.8), p2(f \<mapsto> PFloat 9.5)]"
proof -
  have nv: "numeric_values [p0, p1, p2] f = [(0, PFloat 5.0), (1, PFloat 7.0), (2, PFloat 9.0)]"
    using assms by (simp add: numeric_values_def is_number_def)
  have sv: "sort_key (\<lambda>x. sort_value (snd x)) [(0::nat, PFloat 5.0), (1, PFloat 7.0), (2, PFloat 9.0)]
      = [(0, PFloat 5.0), (1, PFloat 7.0), (2, PFloat 9.0)]"
    by (simp add: sort_value_def py_num_def)
  have r: "rank_score 2 (19/2) (Suc (Suc (Suc 0))) 0 = 2"
    "rank_score 2 (19/2) (Suc (Suc (Suc 0))) (Suc 0) = 29/5"
    "rank_score 2 (19/2) (Suc (Suc (Suc 0))) (Suc (Suc 0)) = 19/2"
    by (simp_all add: rank_score_def py_round1_def round_half_even_def)
  have w: "write_rank f a b n (k, (i, v)) ps
      = ps[i := (ps ! i)(f \<mapsto> PFloat (rank_score a b n k))]" for a b n k i v ps
    by (simp add: write_rank_def rank_score_def Let_def)
  show ?thesis
    unfolding normalize_unfold nv sv
    by (simp add: enumerate_simps w r del: fun_upd_apply)
qed

lemma three_places_reads:
  "dict_get (three_places ! 0) ''quality_0_10'' = PFloat 5.0"
  "dict_get (three_places ! 1) ''quality_0_10'' = PFloat 7.0"
  "dict_get (three_places ! 2) ''quality_0_10'' = PFloat 9.0"
  by (simp_all add: three_places_def dict_get_def)

lemma three_places_list: "three_places = [three_places ! 0, three_places ! 1, three_places ! 2]"
  by (simp add: three_places_def)


lemma three_places_normalized:
  "normalize_to_percentile three_places ''quality_0_10'' 2.0 9.5
     = [(three_places ! 0)(''quality_0_10'' \<mapsto> PFloat 2.0),
        (three_places ! 1)(''quality_0_10'' \<mapsto> PFloat 5.8),
        (three_places ! 2)(''quality_0_10'' \<mapsto> PFloat 9.5)]"
  using normalize_three [OF three_places_reads] three_places_list by simp

text \<open>
  Claim C7, as stated, fails: the cohort with raw quality 5.0, 7.0 and 9.0 is written back
  as 2.0, 5.8 and 9.5. The middle score 5.75 is rounded to one decimal before it is
  stored, so no place holds 5.75.
\<close>
theorem three_place_cohort_middle_is_rounded:
  "map (\<lambda>p. dict_get p ''quality_0_10'')
       (normalize_to_percentile three_places ''quality_0_10'' 2.0 9.5)
     = [PFloat 2.0, PFloat 5.8, PFloat 9.5]
   \<and> map (\<lambda>p. dict_get p ''quality_0_10'')
       (normalize_to_percentile three_places ''quality_0_10'' 2.0 9.5)
     \<noteq> [PFloat 2.0, PFloat 5.75, PFloat 9.5]"
  unfolding three_places_normalized by (simp add: dict_get_def)

text \<open>
  Claim C7, amended. A cohort of exactly three places whose \<^verbatim>\<open>quality_0_10\<close> are 5.0, 7.0
  and 9.0 is normalized with the default targets to 2.0, 5.8 and 9.5: the ranks 0, 0.5
  and 1 are mapped linearly into [2.0, 9.5], giving 2.0, 5.75 and 9.5, and each is
  rounded to one decimal, which takes 5.75 to 5.8. Nothing else of the places changes.
\<close>
theorem three_place_cohort:
  assumes "dict_get p0 ''quality_0_10'' = PFloat 5.0"
    and "dict_get p1 ''quality_0_10'' = PFloat 7.0"
    and "dict_get p2 ''quality_0_10'' = PFloat 9.0"
  shows "normalize_to_percentile [p0, p1, p2] ''quality_0_10'' 2.0 9.5
       = [p0(''quality_0_10'' \<mapsto> PFloat 2.0), p1(''quality_0_10'' \<mapsto> PFloat 5.8),
          p2(''quality_0_10'' \<mapsto> PFloat 9.5)]
     \<and> (2.0::real) + (1 / 2) * (9.5 - 2.0) = 5.75 \<and> py_round1 5.75 = 5.8"
  using normalize_three [OF assms] py_round1_defaults(3) by simp

theorem three_place_cohort_witness:
  "dict_get (three_places ! 0) ''quality_0_10'' = PFloat 5.0
   \<and> dict_get (three_places ! 1) ''quality_0_10'' = PFloat 7.0
   \<and> dict_get (three_places ! 2) ''quality_0_10'' = PFloat 9.0
   \<and> normalize_to_percentile [three_places ! 0, three_places ! 1, three_places ! 2]
        ''quality_0_10'' 2.0 9.5
       = [(three_places ! 0)(''quality_0_10'' \<mapsto> PFloat 2.0),
          (three_places ! 1)(''quality_0_10'' \<mapsto> PFloat 5.8),
          (three_places ! 2)(''quality_0_10'' \<mapsto> PFloat 9.5)]"
  using three_place_cohort [OF three_places_reads] three_places_reads by blast

lemma numeric_values_upt:
  "numeric_values (map (\<lambda>k. [f \<mapsto> PInt (int k)]) [0..<n]) f = map (\<lambda>k. (k, PInt (int k))) [0..<n]"
proof -
  have "map (\<lambda>i. (i, dict_get (map (\<lambda>k. [f \<mapsto> PInt (int k)]) [0..<n] ! i) f)) [0..<n]
      = map (\<lambda>k. (k, PInt (int k))) [0..<n]"
    by (rule map_cong) (simp_all add: dict_get_def)
  then show ?thesis
    by (simp add: numeric_values_def enumerate_field is_number_def filter_map comp_def)
qed

lemma sorted_upt_values:
  "sort_key (\<lambda>x. sort_value (snd x)) (map (\<lambda>k. (k, PInt (int k))) [0..<n])
     = map (\<lambda>k. (k, PInt (int k))) [0..<n]"
proof (rule sort_key_id_if_sorted)
  show "sorted (map (\<lambda>x. sort_value (snd x)) (map (\<lambda>k. (k, PInt (int k))) [0..<n]))"
    by (simp add: sorted_iff_nth_mono sort_value_def py_num_def comp_def)
qed

lemma cohort77_ranked:
  assumes "k < 77"
  shows "normalize_to_percentile cohort77 ''quality_0_10'' 2.0 9.5 ! k
       = (cohort77 ! k)(''quality_0_10'' \<mapsto> PFloat (rank_score 2.0 9.5 77 k))"
proof -
  have nv: "numeric_values cohort77 ''quality_0_10'' = map (\<lambda>k. (k, PInt (int k))) [0..<77]"
    unfolding cohort77_def by (rule numeric_values_upt)
  have len: "length (numeric_values cohort77 ''quality_0_10'') = 77" by (simp add: nv)
  have at: "sort_key (\<lambda>x. sort_value (snd x)) (numeric_values cohort77 ''quality_0_10'') ! k
      = (k, PInt (int k))"
    unfolding nv sorted_upt_values using assms by simp
  show ?thesis
    using normalize_ranked [of cohort77 "''quality_0_10''" k k "PInt (int k)" "2.0" "9.5"]
      assms at
    by (simp add: len)
qed

lemma cohort77_scores:
  "rank_score 2 (19/2) 77 38 = 29/5" "rank_score 2 (19/2) 77 39 = 29/5"
  by (simp_all add: rank_score_def py_round1_def round_half_even_def)

lemma cohort77_raw:
  "k < 77 \<Longrightarrow> field_num (cohort77 ! k) ''quality_0_10'' = Some (real k)"
  by (simp add: cohort77_def field_num_def dict_get_def py_num_def)

text \<open>
  Claim C2, as stated, fails on the order of distinct raw values: in a cohort of 77
  places with raw quality 0, 1, ..., 76 and the default targets, the places with raw 38
  and 39 both receive 5.8 (5.75 and 5.8487 before rounding). Their order is not kept;
  they are tied.
\<close>
theorem distinct_raw_values_can_tie:
  "field_num (cohort77 ! 38) ''quality_0_10'' = Some 38
   \<and> field_num (cohort77 ! 39) ''quality_0_10'' = Some 39
   \<and> dict_get (normalize_to_percentile cohort77 ''quality_0_10'' 2.0 9.5 ! 38) ''quality_0_10''
       = PFloat 5.8
   \<and> dict_get (normalize_to_percentile cohort77 ''quality_0_10'' 2.0 9.5 ! 39) ''quality_0_10''
       = PFloat 5.8"
  using cohort77_raw [of 38] cohort77_raw [of 39] cohort77_ranked [of 38] cohort77_ranked [of 39]
  by (simp add: cohort77_scores dict_get_def)

lemma normalize_keeps_non_numeric:
  assumes "i < length ps" and "field_num (ps ! i) f = None"
  shows "normalize_to_percentile ps f a b ! i = ps ! i"
  using normalize_untouched [OF assms(1)] assms(2) by (simp add: is_number_py_num field_num_def)

text \<open>
  Claim C2, amended. With \<open>n\<close> the number of places holding a number under the field:
  if \<open>n < 2\<close> the list is returned unchanged; if \<open>n \<ge> 2\<close> and
  \<open>target_min \<le> target_max\<close>, two places with raw values \<open>x < y\<close> receive scores
  \<open>x' \<le> y'\<close> (never reversed, possibly equal after rounding), every score lies between
  the rounded targets, and one place receives \<open>round(target_min, 1)\<close> and one
  \<open>round(target_max, 1)\<close>, which are 2.0 and 9.5 for the defaults. Only the field is
  written; places without a number under it, and the length of the list, are unchanged.
\<close>
theorem percentile_normalization:
  "(length (numeric_values places field) < 2
      \<longrightarrow> normalize_to_percentile places field target_min target_max = places)
   \<and> (2 \<le> length (numeric_values places field) \<and> target_min \<le> target_max \<longrightarrow>
        (\<forall>i j x y. i < length places \<and> j < length places
            \<and> field_num (places ! i) field = Some x \<and> field_num (places ! j) field = Some y
            \<and> x < y
          \<longrightarrow> (\<exists>x' y'.
                normalize_to_percentile places field target_min target_max ! i
                  = (places ! i)(field \<mapsto> PFloat x')
              \<and> normalize_to_percentile places field target_min target_max ! j
                  = (places ! j)(field \<mapsto> PFloat y')
              \<and> x' \<le> y'))
      \<and> (\<forall>i. i < length places \<and> field_num (places ! i) field \<noteq> None
          \<longrightarrow> (\<exists>x'. normalize_to_percentile places field target_min target_max ! i
                       = (places ! i)(field \<mapsto> PFloat x')
                   \<and> py_round1 target_min \<le> x' \<and> x' \<le> py_round1 target_max))
      \<and> (\<exists>i < length places.
            normalize_to_percentile places field target_min target_max ! i
              = (places ! i)(field \<mapsto> PFloat (py_round1 target_min)))
      \<and> (\<exists>j < length places.
            normalize_to_percentile places field target_min target_max ! j
              = (places ! j)(field \<mapsto> PFloat (py_round1 target_max))))
   \<and> (\<forall>i. i < length places \<and> field_num (places ! i) field = None
          \<longrightarrow> normalize_to_percentile places field target_min target_max ! i = places ! i)
   \<and> length (normalize_to_percentile places field target_min target_max) = length places
   \<and> py_round1 2.0 = 2.0 \<and> py_round1 9.5 = 9.5"
proof -
  have a: "length (numeric_values places field) < 2
      \<longrightarrow> normalize_to_percentile places field target_min target_max = places"
    by (simp add: normalize_noop)
  have b: "\<exists>x' y'.
                normalize_to_percentile places field target_min target_max ! i
                  = (places ! i)(field \<mapsto> PFloat x')
              \<and> normalize_to_percentile places field target_min target_max ! j
                  = (places ! j)(field \<mapsto> PFloat y')
              \<and> x' \<le> y'"
    if "2 \<le> length (numeric_values places field)" "target_min \<le> target_max"
      "i < length places" "j < length places"
      "field_num (places ! i) field = Some x" "field_num (places ! j) field = Some y" "x < y"
    for i j x y
    using that by (rule normalize_order)
  have c: "\<exists>x'. normalize_to_percentile places field target_min target_max ! i
                       = (places ! i)(field \<mapsto> PFloat x')
                   \<and> py_round1 target_min \<le> x' \<and> x' \<le> py_round1 target_max"
    if "2 \<le> length (numeric_values places field)" "target_min \<le> target_max"
      "i < length places" "field_num (places ! i) field \<noteq> None" for i
    using that by (rule normalize_numeric_range)
  have d: "(\<exists>i < length places.
            normalize_to_percentile places field target_min target_max ! i
              = (places ! i)(field \<mapsto> PFloat (py_round1 target_min)))
      \<and> (\<exists>j < length places.
            normalize_to_percentile places field target_min target_max ! j
              = (places ! j)(field \<mapsto> PFloat (py_round1 target_max)))"
    if "2 \<le> length (numeric_values places field)"
    using that by (rule normalize_extremes)
  have e: "normalize_to_percentile places field target_min target_max ! i = places ! i"
    if "i < length places" "field_num (places ! i) field = None" for i
    using that by (rule normalize_keeps_non_numeric)
  have f: "length (normalize_to_percentile places field target_min target_max) = length places"
    by simp
  show ?thesis
    using a b c d e f py_round1_defaults(1,2) by blast
qed

lemma three_places_count: "length (numeric_values three_places ''quality_0_10'') = 3"
  by (simp add: three_places_def numeric_values_def dict_get_def is_number_def)

lemma three_places_raw:
  "field_num (three_places ! 0) ''quality_0_10'' = Some 5"
  "field_num (three_places ! 1) ''quality_0_10'' = Some 7"
  by (simp_all add: three_places_def field_num_def dict_get_def py_num_def)

lemma food_place_count: "length (numeric_values [food_place] ''quality_0_10'') = 0"
  by (simp add: food_place_def numeric_values_def dict_get_def is_number_def)

theorem percentile_normalization_witness:
  "length (numeric_values [food_place] ''quality_0_10'') < 2
   \<and> normalize_to_percentile [food_place] ''quality_0_10'' 2.0 9.5 = [food_place]
   \<and> 2 \<le> length (numeric_values three_places ''quality_0_10'') \<and> (2.0::real) \<le> 9.5
   \<and> field_num (three_places ! 0) ''quality_0_10'' = Some 5
   \<and> field_num (three_places ! 1) ''quality_0_10'' = Some 7
   \<and> (\<exists>x' y'. normalize_to_percentile three_places ''quality_0_10'' 2.0 9.5 ! 0
                  = (three_places ! 0)(''quality_0_10'' \<mapsto> PFloat x')
              \<and> normalize_to_percentile three_places ''quality_0_10'' 2.0 9.5 ! 1
                  = (three_places ! 1)(''quality_0_10'' \<mapsto> PFloat y')
              \<and> x' \<le> y')"
proof -
  have n1: "length (numeric_values [food_place] ''quality_0_10'') < 2"
    by (simp add: food_place_count)
  have n3: "2 \<le> length (numeric_values three_places ''quality_0_10'')"
    by (simp add: three_places_count)
  have ab: "(2.0::real) \<le> 9.5" by simp
  have len: "(0::nat) < length three_places" "1 < length three_places"
    by (simp_all add: three_places_def)
  have lt: "(5::real) < 7" by simp
  note t1 = percentile_normalization [of "[food_place]" "''quality_0_10''" "2.0" "9.5"]
  note t3 = percentile_normalization [of three_places "''quality_0_10''" "2.0" "9.5"]
  have r1: "normalize_to_percentile [food_place] ''quality_0_10'' 2.0 9.5 = [food_place]"
    using t1 n1 by blast
  have r3: "\<exists>x' y'. normalize_to_percentile three_places ''quality_0_10'' 2.0 9.5 ! 0
                  = (three_places ! 0)(''quality_0_10'' \<mapsto> PFloat x')
              \<and> normalize_to_percentile three_places ''quality_0_10'' 2.0 9.5 ! 1
                  = (three_places ! 1)(''quality_0_10'' \<mapsto> PFloat y')
              \<and> x' \<le> y'"
    using t3 n3 ab len three_places_raw lt by blast
  show ?thesis using n1 r1 n3 ab three_places_raw r3 by blast
qed

section \<open>What each calculator reads\<close>

lemma dict_get_other: "k' \<noteq> k \<Longrightarrow> dict_get (p(k \<mapsto> v)) k' = dict_get p k'"
  by (simp add: dict_get_def)

lemma dict_get_same: "dict_get (p(k \<mapsto> v)) k = v"
  by (simp add: dict_get_def)

lemma character_cong:
  assumes "dict_get p' ''avg_authenticity'' = dict_get p ''avg_authenticity''"
    and "dict_get p' ''avg_classic_institution'' = dict_get p ''avg_classic_institution''"
    and "dict_get p' ''avg_unpretentious'' = dict_get p ''avg_unpretentious''"
    and "dict_get p' ''avg_divey_score'' = dict_get p ''avg_divey_score''"
    and "dict_get p' ''avg_memorable'' = dict_get p ''avg_memorable''"
    and "dict_get p' ''pct_dive_positive'' = dict_get p ''pct_dive_positive''"
    and "dict_get p' ''vibe_tag'' = dict_get p ''vibe_tag''"
    and "dict_get p' ''user_ratings_total'' = dict_get p ''user_ratings_total''"
    and "dict_get p' ''review_count'' = dict_get p ''review_count''"
  shows "character_0_10 B p' = character_0_10 B p"
  unfolding character_0_10_def by (simp only: assms)

lemma quality_cong:
  assumes "dict_get p' ''avg_food_drink_quality'' = dict_get p ''avg_food_drink_quality''"
    and "dict_get p' ''avg_service_quality'' = dict_get p ''avg_service_quality''"
    and "dict_get p' ''avg_value_score'' = dict_get p ''avg_value_score''"
    and "dict_get p' ''avg_would_recommend'' = dict_get p ''avg_would_recommend''"
    and "dict_get p' ''avg_memorable'' = dict_get p ''avg_memorable''"
    and "dict_get p' ''avg_openai_sentiment'' = dict_get p ''avg_openai_sentiment''"
    and "dict_get p' ''user_ratings_total'' = dict_get p ''user_ratings_total''"
    and "dict_get p' ''review_count'' = dict_get p ''review_count''"
  shows "quality_0_10 B p' = quality_0_10 B p"
  unfolding quality_0_10_def by (simp only: assms)

lemma underrated_cong:
  assumes "dict_get p' ''avg_would_recommend'' = dict_get p ''avg_would_recommend''"
    and "dict_get p' ''avg_openai_sentiment'' = dict_get p ''avg_openai_sentiment''"
    and "dict_get p' ''rating'' = dict_get p ''rating''"
    and "dict_get p' ''review_count'' = dict_get p ''review_count''"
    and "dict_get p' ''ml_metadata'' = dict_get p ''ml_metadata''"
  shows "underrated_0_10 B p' s = underrated_0_10 B p s"
  unfolding underrated_0_10_def underrated_fallback_def by (simp only: assms)



lemma agree_off_get: "agree_off K p' p \<Longrightarrow> k \<notin> K \<Longrightarrow> dict_get p' k = dict_get p k"
  by (simp add: agree_off_def dict_get_def)

lemma agree_off_refl: "agree_off K p p"
  by (simp add: agree_off_def)

lemma agree_off_upd: "agree_off K p' p \<Longrightarrow> k \<in> K \<Longrightarrow> agree_off K (p'(k \<mapsto> v)) p"
  by (auto simp: agree_off_def)

lemma raw_keys_not_computed:
  "''avg_authenticity'' \<notin> computed_keys" "''avg_classic_institution'' \<notin> computed_keys"
  "''avg_unpretentious'' \<notin> computed_keys" "''avg_divey_score'' \<notin> computed_keys"
  "''avg_memorable'' \<notin> computed_keys" "''pct_dive_positive'' \<notin> computed_keys"
  "''vibe_tag'' \<notin> computed_keys" "''user_ratings_total'' \<notin> computed_keys"
  "''review_count'' \<notin> computed_keys" "''avg_food_drink_quality'' \<notin> computed_keys"
  "''avg_service_quality'' \<notin> computed_keys" "''avg_value_score'' \<notin> computed_keys"
  "''avg_would_recommend'' \<notin> computed_keys" "''avg_openai_sentiment'' \<notin> computed_keys"
  "''rating'' \<notin> computed_keys" "''ml_metadata'' \<notin> computed_keys"
  by (simp_all add: computed_keys_def)

lemma computed_keys_mem:
  "''dive_score'' \<in> computed_keys" "''dive_grade'' \<in> computed_keys"
  "''gem_label'' \<in> computed_keys" "''character_0_10'' \<in> computed_keys"
  "''diveiness_0_10'' \<in> computed_keys" "''quality_0_10'' \<in> computed_keys"
  "''underrated_0_10'' \<in> computed_keys" "''blended_0_10'' \<in> computed_keys"
  by (simp_all add: computed_keys_def)

lemma character_agree:
  "agree_off computed_keys p' p \<Longrightarrow> character_0_10 B p' = character_0_10 B p"
  by (rule character_cong) (simp_all add: agree_off_get raw_keys_not_computed)

lemma quality_agree:
  "agree_off computed_keys p' p \<Longrightarrow> quality_0_10 B p' = quality_0_10 B p"
  by (rule quality_cong) (simp_all add: agree_off_get raw_keys_not_computed)

lemma underrated_agree:
  "agree_off computed_keys p' p \<Longrightarrow> underrated_0_10 B p' s = underrated_0_10 B p s"
  by (rule underrated_cong) (simp_all add: agree_off_get raw_keys_not_computed)

section \<open>The blend\<close>

lemma number_cases:
  obtains x where "is_number v" and "py_num v = Some x" and "safe_float_num B v d = x"
  | "\<not> is_number v" and "py_num v = None"
  by (cases v) (auto simp: is_number_def py_num_def safe_float_num_def py_float_def)

lemma mean_forms:
  "sum_list (map (\<lambda>(s, w). s * (w / W)) sws) = sum_list (map (\<lambda>(s, w). s * w) sws) / (W::real)"
  by (induction sws) (auto simp: add_divide_distrib)

lemma renormalized_mean_eq:
  "renormalized_mean sws =
     (if sws = [] then None
      else Some (py_round1 (sum_list (map (\<lambda>(s, w). s * w) sws) / sum_list (map snd sws))))"
  by (simp only: renormalized_mean_def mean_forms)

lemma blended_as_mean: "blended_0_10 B p = renormalized_mean (present_components p)"
proof -
  let ?q = "dict_get p ''quality_0_10''" and ?c = "dict_get p ''character_0_10''"
    and ?u = "dict_get p ''underrated_0_10''"
  have eq: "field_num p ''quality_0_10'' = py_num ?q" "field_num p ''character_0_10'' = py_num ?c"
    "field_num p ''underrated_0_10'' = py_num ?u"
    by (simp_all add: field_num_def)
  show ?thesis
  proof (cases ?q rule: number_cases [where B = B and d = "0.0"])
    case q: (1 x)
    show ?thesis
    proof (cases ?c rule: number_cases [where B = B and d = "0.0"])
      case c: (1 y)
      show ?thesis
      proof (cases ?u rule: number_cases [where B = B and d = "0.0"])
        case u: (1 z)
        show ?thesis
          using q c u
          by (simp add: blended_0_10_def present_components_def renormalized_mean_eq eq)
      next
        case u: 2
        show ?thesis
          using q c u
          by (simp add: blended_0_10_def present_components_def renormalized_mean_eq eq)
      qed
    next
      case c: 2
      show ?thesis
      proof (cases ?u rule: number_cases [where B = B and d = "0.0"])
        case u: (1 z)
        show ?thesis
          using q c u
          by (simp add: blended_0_10_def present_components_def renormalized_mean_eq eq)
      next
        case u: 2
        show ?thesis
          using q c u
          by (simp add: blended_0_10_def present_components_def renormalized_mean_eq eq)
      qed
    qed
  next
    case q: 2
    show ?thesis
    proof (cases ?c rule: number_cases [where B = B and d = "0.0"])
      case c: (1 y)
      show ?thesis
      proof (cases ?u rule: number_cases [where B = B and d = "0.0"])
        case u: (1 z)
        show ?thesis
          using q c u
          by (simp add: blended_0_10_def present_components_def renormalized_mean_eq eq)
      next
        case u: 2
        show ?thesis
          using q c u
          by (simp add: blended_0_10_def present_components_def renormalized_mean_eq eq)
      qed
    next
      case c: 2
      show ?thesis
      proof (cases ?u rule: number_cases [where B = B and d = "0.0"])
        case u: (1 z)
        show ?thesis
          using q c u
          by (simp add: blended_0_10_def present_components_def renormalized_mean_eq eq)
      next
        case u: 2
        show ?thesis
          using q c u
          by (simp add: blended_0_10_def present_components_def renormalized_mean_eq eq)
      qed
    qed
  qed
qed

lemma blended_all_three:
  assumes "field_num p ''quality_0_10'' = Some q" and "field_num p ''character_0_10'' = Some c"
    and "field_num p ''underrated_0_10'' = Some u"
  shows "blended_0_10 B p = Some (py_round1 (0.40 * q + 0.35 * c + 0.25 * u))"
proof -
  have "blended_0_10 B p
      = Some (py_round1 ((q * 0.40 + (c * 0.35 + (u * 0.25 + 0))) / (0.40 + (0.35 + (0.25 + 0)))))"
    unfolding blended_as_mean present_components_def renormalized_mean_eq assms by simp
  moreover have "(q * 0.40 + (c * 0.35 + (u * 0.25 + 0))) / (0.40 + (0.35 + (0.25 + 0)))
      = 0.40 * q + 0.35 * c + 0.25 * u"
    by (simp add: algebra_simps)
  ultimately show ?thesis by (simp only:)
qed



section \<open>The dive score\<close>

lemma dive_total_range: "0 \<le> dive_total r v pr res \<and> dive_total r v pr res \<le> 100"
  by (simp add: dive_total_def Let_def)

lemma dive_grade_steps:
  "(dive_grade_of t = ''A'') = (85 \<le> t)"
  "(dive_grade_of t = ''B'') = (70 \<le> t \<and> t < 85)"
  "(dive_grade_of t = ''C'') = (50 \<le> t \<and> t < 70)"
  "(dive_grade_of t = ''D'') = (t < 50)"
  by (auto simp: dive_grade_of_def)

lemma gem_label_steps:
  "(gem_label_of t = gem_label_of 85) = (85 \<le> t)"
  "(gem_label_of t = gem_label_of 70) = (70 \<le> t \<and> t < 85)"
  "(gem_label_of t = gem_label_of 50) = (50 \<le> t \<and> t < 70)"
  "(gem_label_of t = gem_label_of 0) = (t < 50)"
  by (auto simp: gem_label_of_def)

lemma rounded_score_of_grade:
  "(dive_grade_of t = ''A'' \<longrightarrow> 85 \<le> py_round1 t)
   \<and> (dive_grade_of t = ''B'' \<longrightarrow> 70 \<le> py_round1 t \<and> py_round1 t \<le> 85)
   \<and> (dive_grade_of t = ''C'' \<longrightarrow> 50 \<le> py_round1 t \<and> py_round1 t \<le> 70)
   \<and> (dive_grade_of t = ''D'' \<longrightarrow> py_round1 t \<le> 50)"
proof -
  have ge: "real_of_int m \<le> t \<Longrightarrow> real_of_int m \<le> py_round1 t" for m
    using py_round1_ge [of "m * 10" t] by simp
  have le: "t \<le> real_of_int m \<Longrightarrow> py_round1 t \<le> real_of_int m" for m
    using py_round1_le [of t "m * 10"] by simp
  show ?thesis
    using ge [of 85] ge [of 70] ge [of 50] le [of 85] le [of 70] le [of 50]
    by (simp add: dive_grade_steps)
qed

lemma calculate_dive_score_form:
  assumes "calculate_dive_score B p = Inr p1"
  shows "\<exists>t. 0 \<le> t \<and> t \<le> 100
           \<and> p1 = p(''dive_score'' \<mapsto> PFloat (py_round1 t),
                    ''dive_grade'' \<mapsto> PStr (dive_grade_of t),
                    ''gem_label'' \<mapsto> PStr (gem_label_of t))"
proof -
  from assms obtain x r v where
    "p1 = p(''dive_score'' \<mapsto> PFloat (py_round1 (dive_total r v (dict_get p ''price_level'') x)),
            ''dive_grade'' \<mapsto> PStr (dive_grade_of (dive_total r v (dict_get p ''price_level'') x)),
            ''gem_label'' \<mapsto> PStr (gem_label_of (dive_total r v (dict_get p ''price_level'') x)))"
    by (auto simp: calculate_dive_score_def Let_def split: sum.splits option.splits)
  then show ?thesis using dive_total_range by blast
qed

section \<open>The Underrated score is in range\<close>

lemma underrated_range:
  assumes "underrated_0_10 B p s = Inr u"
  shows "0 \<le> u \<and> u \<le> 10"
proof -
  have five: "(0::real) \<le> 5 \<and> (5::real) \<le> 10" by simp
  from assms show ?thesis
    using guardrail_range five
    by (auto simp: underrated_0_10_def underrated_fallback_def Let_def
        split: option.splits sum.splits if_splits)
qed

section \<open>What enrichment writes\<close>

lemma field_num_same: "field_num (p(k \<mapsto> PFloat x)) k = Some x"
  by (simp add: field_num_def dict_get_def py_num_def)

lemma field_num_other: "k' \<noteq> k \<Longrightarrow> field_num (p(k \<mapsto> v)) k' = field_num p k'"
  by (simp add: field_num_def dict_get_def)

lemma enrich_place_form:
  assumes "enrich_place B p s = Inr p'"
  shows "\<exists>t u. 0 \<le> t \<and> t \<le> 100 \<and> underrated_0_10 B p s = Inr u
     \<and> p' = p(''dive_score'' \<mapsto> PFloat (py_round1 t),
              ''dive_grade'' \<mapsto> PStr (dive_grade_of t),
              ''gem_label'' \<mapsto> PStr (gem_label_of t),
              ''character_0_10'' \<mapsto> PFloat (character_0_10 B p),
              ''diveiness_0_10'' \<mapsto> PFloat (character_0_10 B p),
              ''quality_0_10'' \<mapsto> PFloat (quality_0_10 B p),
              ''underrated_0_10'' \<mapsto> PFloat u,
              ''blended_0_10'' \<mapsto> PFloat (py_round1
                  (0.40 * quality_0_10 B p + 0.35 * character_0_10 B p + 0.25 * u)))"
proof -
  from assms obtain p1 where c1: "calculate_dive_score B p = Inr p1"
    by (auto simp: enrich_place_def split: sum.splits)
  then obtain t where t: "0 \<le> t" "t \<le> 100"
    and p1: "p1 = p(''dive_score'' \<mapsto> PFloat (py_round1 t),
                    ''dive_grade'' \<mapsto> PStr (dive_grade_of t),
                    ''gem_label'' \<mapsto> PStr (gem_label_of t))"
    using calculate_dive_score_form by blast
  define p2 where "p2 = p1(''character_0_10'' \<mapsto> PFloat (character_0_10 B p1))"
  define p3 where "p3 = p2(''diveiness_0_10'' \<mapsto> dict_get p2 ''character_0_10'')"
  define p4 where "p4 = p3(''quality_0_10'' \<mapsto> PFloat (quality_0_10 B p3))"
  have a1: "agree_off computed_keys p1 p"
    unfolding p1 by (intro agree_off_upd agree_off_refl computed_keys_mem)
  have a2: "agree_off computed_keys p2 p"
    unfolding p2_def by (intro agree_off_upd a1 computed_keys_mem)
  have a3: "agree_off computed_keys p3 p"
    unfolding p3_def by (intro agree_off_upd a2 computed_keys_mem)
  have a4: "agree_off computed_keys p4 p"
    unfolding p4_def by (intro agree_off_upd a3 computed_keys_mem)
  have ch: "character_0_10 B p1 = character_0_10 B p" using a1 by (rule character_agree)
  have qu: "quality_0_10 B p3 = quality_0_10 B p" using a3 by (rule quality_agree)
  have un: "underrated_0_10 B p4 s = underrated_0_10 B p s" using a4 by (rule underrated_agree)
  have al: "dict_get p2 ''character_0_10'' = PFloat (character_0_10 B p)"
    unfolding p2_def ch by (rule dict_get_same)
  have e: "enrich_place B p s =
      (case underrated_0_10 B p4 s of
         Inl e \<Rightarrow> Inl e
       | Inr u \<Rightarrow> Inr (p4(''underrated_0_10'' \<mapsto> PFloat u,
                          ''blended_0_10'' \<mapsto>
                             opt_val (blended_0_10 B (p4(''underrated_0_10'' \<mapsto> PFloat u))))))"
    unfolding enrich_place_def c1 Let_def p4_def p3_def p2_def by (simp only: sum.case)
  from assms obtain u where u: "underrated_0_10 B p4 s = Inr u"
    and p': "p' = p4(''underrated_0_10'' \<mapsto> PFloat u,
                     ''blended_0_10'' \<mapsto>
                        opt_val (blended_0_10 B (p4(''underrated_0_10'' \<mapsto> PFloat u))))"
    unfolding e by (auto split: sum.splits)
  have fq: "field_num (p4(''underrated_0_10'' \<mapsto> PFloat u)) ''quality_0_10''
      = Some (quality_0_10 B p)"
    unfolding p4_def qu by (simp add: field_num_other field_num_same)
  have fc: "field_num (p4(''underrated_0_10'' \<mapsto> PFloat u)) ''character_0_10''
      = Some (character_0_10 B p)"
    unfolding p4_def p3_def p2_def ch by (simp add: field_num_other field_num_same)
  have fu: "field_num (p4(''underrated_0_10'' \<mapsto> PFloat u)) ''underrated_0_10'' = Some u"
    by (rule field_num_same)
  have bl: "blended_0_10 B (p4(''underrated_0_10'' \<mapsto> PFloat u))
      = Some (py_round1 (0.40 * quality_0_10 B p + 0.35 * character_0_10 B p + 0.25 * u))"
    using fq fc fu by (rule blended_all_three)
  have "p' = p(''dive_score'' \<mapsto> PFloat (py_round1 t),
              ''dive_grade'' \<mapsto> PStr (dive_grade_of t),
              ''gem_label'' \<mapsto> PStr (gem_label_of t),
              ''character_0_10'' \<mapsto> PFloat (character_0_10 B p),
              ''diveiness_0_10'' \<mapsto> PFloat (character_0_10 B p),
              ''quality_0_10'' \<mapsto> PFloat (quality_0_10 B p),
              ''underrated_0_10'' \<mapsto> PFloat u,
              ''blended_0_10'' \<mapsto> PFloat (py_round1
                  (0.40 * quality_0_10 B p + 0.35 * character_0_10 B p + 0.25 * u)))"
  proof -
    have s0: "p' = p4(''underrated_0_10'' \<mapsto> PFloat u,
                     ''blended_0_10'' \<mapsto> PFloat (py_round1
                        (0.40 * quality_0_10 B p + 0.35 * character_0_10 B p + 0.25 * u)))"
      by (simp only: p' bl opt_val_def option.case)
    have s1: "p4 = p3(''quality_0_10'' \<mapsto> PFloat (quality_0_10 B p))"
      by (simp only: p4_def qu)
    have s2: "p3 = p2(''diveiness_0_10'' \<mapsto> PFloat (character_0_10 B p))"
      by (simp only: p3_def al)
    have s3: "p2 = p1(''character_0_10'' \<mapsto> PFloat (character_0_10 B p))"
      by (simp only: p2_def ch)
    show ?thesis by (simp only: s0 s1 s2 s3 p1)
  qed
  then show ?thesis using t u un by auto
qed

section \<open>The scoring pass, place by place\<close>

lemma map_result_length: "map_result f xs = Inr ys \<Longrightarrow> length ys = length xs"
  by (induction xs arbitrary: ys) (auto split: sum.splits)

lemma map_result_set:
  "map_result f xs = Inr ys \<Longrightarrow> y \<in> set ys \<Longrightarrow> \<exists>x \<in> set xs. f x = Inr y"
  by (induction xs arbitrary: ys) (auto split: sum.splits)

lemma map_result_nth:
  "map_result f xs = Inr ys \<Longrightarrow> i < length xs \<Longrightarrow> f (xs ! i) = Inr (ys ! i)"
proof (induction xs arbitrary: ys i)
  case Nil
  then show ?case by simp
next
  case (Cons x xs)
  then show ?case by (cases i) (auto split: sum.splits)
qed

lemma score_cohort_form:
  assumes "score_cohort B rs s = Inr out"
  shows "\<exists>es. map_result (\<lambda>place. enrich_place B place s) rs = Inr es
            \<and> out = map (reblend B) (normalize_lenses es)"
  using assms by (auto simp: score_cohort_def normalize_lenses_def Let_def split: sum.splits)

lemma lens_ok_upd:
  assumes "lens_ok p" and "f \<in> {''quality_0_10'', ''character_0_10'', ''underrated_0_10''}"
    and "0 \<le> r" and "r \<le> 10"
  shows "lens_ok (p(f \<mapsto> PFloat r))"
  using assms by (auto simp: lens_ok_def)

lemma lens_ok_blend: "lens_ok p \<Longrightarrow> lens_ok (p(''blended_0_10'' \<mapsto> v))"
  by (simp add: lens_ok_def)

lemma dive_ok_upd:
  assumes "dive_ok p"
    and "f \<in> {''quality_0_10'', ''character_0_10'', ''underrated_0_10'', ''blended_0_10''}"
  shows "dive_ok (p(f \<mapsto> v))"
  using assms by (auto simp: dive_ok_def)

lemma enrich_ok:
  assumes "enrich_place B p s = Inr p'"
  shows "lens_ok p' \<and> dive_ok p'"
proof -
  obtain t u where t: "0 \<le> t" "t \<le> 100" and u: "underrated_0_10 B p s = Inr u"
    and p': "p' = p(''dive_score'' \<mapsto> PFloat (py_round1 t),
              ''dive_grade'' \<mapsto> PStr (dive_grade_of t),
              ''gem_label'' \<mapsto> PStr (gem_label_of t),
              ''character_0_10'' \<mapsto> PFloat (character_0_10 B p),
              ''diveiness_0_10'' \<mapsto> PFloat (character_0_10 B p),
              ''quality_0_10'' \<mapsto> PFloat (quality_0_10 B p),
              ''underrated_0_10'' \<mapsto> PFloat u,
              ''blended_0_10'' \<mapsto> PFloat (py_round1
                  (0.40 * quality_0_10 B p + 0.35 * character_0_10 B p + 0.25 * u)))"
    using enrich_place_form [OF assms] by blast
  have "lens_ok p'"
    unfolding p' lens_ok_def
    using quality_range [of B p] character_range [of B p] underrated_range [OF u] by simp
  moreover have "dive_ok p'"
    unfolding p' dive_ok_def using t by (intro exI [of _ t]) simp
  ultimately show ?thesis by simp
qed

lemma default_targets_range:
  assumes "k < n"
  shows "0 \<le> rank_score 2.0 9.5 n k \<and> rank_score 2.0 9.5 n k \<le> 10"
proof -
  have "py_round1 2.0 \<le> rank_score 2.0 9.5 n k \<and> rank_score 2.0 9.5 n k \<le> py_round1 9.5"
    by (rule rank_score_between) (use assms in simp_all)
  then show ?thesis using py_round1_defaults(1,2) by simp
qed

lemma normalize_preserves:
  assumes all: "list_all P ps"
    and step: "\<And>p r. P p \<Longrightarrow> 0 \<le> r \<Longrightarrow> r \<le> 10 \<Longrightarrow> P (p(f \<mapsto> PFloat r))"
  shows "list_all P (normalize_to_percentile ps f 2.0 9.5)"
proof -
  have "P (normalize_to_percentile ps f 2.0 9.5 ! i)" if i: "i < length ps" for i
  proof -
    have Pi: "P (ps ! i)" using all i by (simp add: list_all_length)
    from normalize_nth_cases [OF i, of f "2.0" "9.5"] show ?thesis
    proof
      assume "normalize_to_percentile ps f 2.0 9.5 ! i = ps ! i"
      then show ?thesis using Pi by simp
    next
      assume "\<exists>k<length (numeric_values ps f). 2 \<le> length (numeric_values ps f)
          \<and> normalize_to_percentile ps f 2.0 9.5 ! i
               = (ps ! i)(f \<mapsto> PFloat (rank_score 2.0 9.5 (length (numeric_values ps f)) k))"
      then obtain k where k: "k < length (numeric_values ps f)"
        and e: "normalize_to_percentile ps f 2.0 9.5 ! i
               = (ps ! i)(f \<mapsto> PFloat (rank_score 2.0 9.5 (length (numeric_values ps f)) k))"
        by blast
      show ?thesis
        unfolding e using default_targets_range [OF k] by (intro step Pi) simp_all
    qed
  qed
  then show ?thesis by (simp add: list_all_length)
qed

lemma normalize_lenses_ok:
  assumes "list_all (\<lambda>p. lens_ok p \<and> dive_ok p) ps"
  shows "list_all (\<lambda>p. lens_ok p \<and> dive_ok p) (normalize_lenses ps)"
  unfolding normalize_lenses_def
  by (intro normalize_preserves assms conjI lens_ok_upd dive_ok_upd) simp_all

lemma normalize_lenses_length [simp]: "length (normalize_lenses ps) = length ps"
  by (simp add: normalize_lenses_def)

lemma lens_ok_fields:
  assumes "lens_ok p"
  obtains q c u where "field_num p ''quality_0_10'' = Some q" "0 \<le> q" "q \<le> 10"
    and "field_num p ''character_0_10'' = Some c" "0 \<le> c" "c \<le> 10"
    and "field_num p ''underrated_0_10'' = Some u" "0 \<le> u" "u \<le> 10"
    and "p ''quality_0_10'' = Some (PFloat q)" and "p ''character_0_10'' = Some (PFloat c)"
    and "p ''underrated_0_10'' = Some (PFloat u)"
  using assms by (auto simp: lens_ok_def field_num_def dict_get_def py_num_def)

lemma blend_in_range:
  fixes q c u :: real
  assumes "0 \<le> q" "q \<le> 10" "0 \<le> c" "c \<le> 10" "0 \<le> u" "u \<le> 10"
  shows "0 \<le> py_round1 (0.40 * q + 0.35 * c + 0.25 * u)
       \<and> py_round1 (0.40 * q + 0.35 * c + 0.25 * u) \<le> 10"
  by (rule py_round1_0_10) (use assms in simp_all)

lemma enrich_place_eq:
  assumes c1: "calculate_dive_score B p = Inr p1"
  shows "enrich_place B p s =
     (case underrated_0_10 B p s of
        Inl e \<Rightarrow> Inl e
      | Inr u \<Rightarrow>
          Inr (p1(''character_0_10'' \<mapsto> PFloat (character_0_10 B p),
                  ''diveiness_0_10'' \<mapsto> PFloat (character_0_10 B p),
                  ''quality_0_10'' \<mapsto> PFloat (quality_0_10 B p),
                  ''underrated_0_10'' \<mapsto> PFloat u,
                  ''blended_0_10'' \<mapsto> PFloat (py_round1
                      (0.40 * quality_0_10 B p + 0.35 * character_0_10 B p + 0.25 * u)))))"
proof -
  obtain t where p1: "p1 = p(''dive_score'' \<mapsto> PFloat (py_round1 t),
                    ''dive_grade'' \<mapsto> PStr (dive_grade_of t),
                    ''gem_label'' \<mapsto> PStr (gem_label_of t))"
    using calculate_dive_score_form [OF c1] by blast
  define p2 where "p2 = p1(''character_0_10'' \<mapsto> PFloat (character_0_10 B p1))"
  define p3 where "p3 = p2(''diveiness_0_10'' \<mapsto> dict_get p2 ''character_0_10'')"
  define p4 where "p4 = p3(''quality_0_10'' \<mapsto> PFloat (quality_0_10 B p3))"
  have a1: "agree_off computed_keys p1 p"
    unfolding p1 by (intro agree_off_upd agree_off_refl computed_keys_mem)
  have a2: "agree_off computed_keys p2 p"
    unfolding p2_def by (intro agree_off_upd a1 computed_keys_mem)
  have a3: "agree_off computed_keys p3 p"
    unfolding p3_def by (intro agree_off_upd a2 computed_keys_mem)
  have a4: "agree_off computed_keys p4 p"
    unfolding p4_def by (intro agree_off_upd a3 computed_keys_mem)
  have ch: "character_0_10 B p1 = character_0_10 B p" using a1 by (rule character_agree)
  have qu: "quality_0_10 B p3 = quality_0_10 B p" using a3 by (rule quality_agree)
  have un: "underrated_0_10 B p4 s = underrated_0_10 B p s" using a4 by (rule underrated_agree)
  have al: "dict_get p2 ''character_0_10'' = PFloat (character_0_10 B p)"
    unfolding p2_def ch by (rule dict_get_same)
  have e: "enrich_place B p s =
      (case underrated_0_10 B p4 s of
         Inl e \<Rightarrow> Inl e
       | Inr u \<Rightarrow> Inr (p4(''underrated_0_10'' \<mapsto> PFloat u,
                          ''blended_0_10'' \<mapsto>
                             opt_val (blended_0_10 B (p4(''underrated_0_10'' \<mapsto> PFloat u))))))"
    unfolding enrich_place_def c1 Let_def p4_def p3_def p2_def by (simp only: sum.case)
  have s1: "p4 = p3(''quality_0_10'' \<mapsto> PFloat (quality_0_10 B p))"
    by (simp only: p4_def qu)
  have s2: "p3 = p2(''diveiness_0_10'' \<mapsto> PFloat (character_0_10 B p))"
    by (simp only: p3_def al)
  have s3: "p2 = p1(''character_0_10'' \<mapsto> PFloat (character_0_10 B p))"
    by (simp only: p2_def ch)
  show ?thesis
  proof (cases "underrated_0_10 B p s")
    case (Inl x)
    then show ?thesis by (simp add: e un)
  next
    case (Inr u)
    have fq: "field_num (p4(''underrated_0_10'' \<mapsto> PFloat u)) ''quality_0_10''
        = Some (quality_0_10 B p)"
      unfolding p4_def qu by (simp add: field_num_other field_num_same)
    have fc: "field_num (p4(''underrated_0_10'' \<mapsto> PFloat u)) ''character_0_10''
        = Some (character_0_10 B p)"
      unfolding p4_def p3_def p2_def ch by (simp add: field_num_other field_num_same)
    have fu: "field_num (p4(''underrated_0_10'' \<mapsto> PFloat u)) ''underrated_0_10'' = Some u"
      by (rule field_num_same)
    have bl: "blended_0_10 B (p4(''underrated_0_10'' \<mapsto> PFloat u))
        = Some (py_round1 (0.40 * quality_0_10 B p + 0.35 * character_0_10 B p + 0.25 * u))"
      using fq fc fu by (rule blended_all_three)
    have "enrich_place B p s
        = Inr (p4(''underrated_0_10'' \<mapsto> PFloat u,
                  ''blended_0_10'' \<mapsto> PFloat (py_round1
                      (0.40 * quality_0_10 B p + 0.35 * character_0_10 B p + 0.25 * u))))"
      by (simp only: e un Inr sum.case bl opt_val_def option.case)
    then show ?thesis by (simp only: Inr sum.case s1 s2 s3)
  qed
qed

lemma numeric_values_length: "length (numeric_values ps f) \<le> length ps"
  by (simp add: numeric_values_def le_trans [OF length_filter_le])

lemma normalize_single: "normalize_to_percentile [p] f a b = [p]"
  using numeric_values_length [of "[p]" f] by (intro normalize_noop) simp

lemma normalize_lenses_single: "normalize_lenses [p] = [p]"
  by (simp add: normalize_lenses_def normalize_single)

lemma normalize_other_key:
  assumes "i < length ps" and "k \<noteq> f"
  shows "(normalize_to_percentile ps f a b ! i) k = (ps ! i) k"
  using normalize_nth_cases [OF assms(1), of f a b] assms(2) by auto

lemma normalize_two:
  assumes "dict_get p0 f = PFloat x" and "dict_get p1 f = PFloat y" and "x \<le> y"
  shows "normalize_to_percentile [p0, p1] f 2.0 9.5 = [p0(f \<mapsto> PFloat 2.0), p1(f \<mapsto> PFloat 9.5)]"
proof -
  have nv: "numeric_values [p0, p1] f = [(0, PFloat x), (1, PFloat y)]"
    using assms by (simp add: numeric_values_def is_number_def)
  have sv: "sort_key (\<lambda>x. sort_value (snd x)) [(0::nat, PFloat x), (1, PFloat y)]
      = [(0, PFloat x), (1, PFloat y)]"
    using assms(3) by (simp add: sort_value_def py_num_def)
  have r: "rank_score 2 (19/2) (Suc (Suc 0)) 0 = 2" "rank_score 2 (19/2) (Suc (Suc 0)) (Suc 0) = 19/2"
    by (simp_all add: rank_score_def py_round1_def round_half_even_def)
  have w: "write_rank f a b n (k, (i, v)) ps
      = ps[i := (ps ! i)(f \<mapsto> PFloat (rank_score a b n k))]" for a b n k i v ps
    by (simp add: write_rank_def rank_score_def Let_def)
  show ?thesis
    unfolding normalize_unfold nv sv
    by (simp add: enumerate_simps w r del: fun_upd_apply)
qed

lemma normalize_two_swapped:
  assumes "dict_get p0 f = PFloat x" and "dict_get p1 f = PFloat y" and "y < x"
  shows "normalize_to_percentile [p0, p1] f 2.0 9.5 = [p0(f \<mapsto> PFloat 9.5), p1(f \<mapsto> PFloat 2.0)]"
proof -
  have nv: "numeric_values [p0, p1] f = [(0, PFloat x), (1, PFloat y)]"
    using assms by (simp add: numeric_values_def is_number_def)
  have sv: "sort_key (\<lambda>x. sort_value (snd x)) [(0::nat, PFloat x), (1, PFloat y)]
      = [(1, PFloat y), (0, PFloat x)]"
    using assms(3) by (simp add: sort_value_def py_num_def)
  have r: "rank_score 2 (19/2) (Suc (Suc 0)) 0 = 2" "rank_score 2 (19/2) (Suc (Suc 0)) (Suc 0) = 19/2"
    by (simp_all add: rank_score_def py_round1_def round_half_even_def)
  have w: "write_rank f a b n (k, (i, v)) ps
      = ps[i := (ps ! i)(f \<mapsto> PFloat (rank_score a b n k))]" for a b n k i v ps
    by (simp add: write_rank_def rank_score_def Let_def)
  show ?thesis
    unfolding normalize_unfold nv sv
    by (simp add: enumerate_simps w r del: fun_upd_apply)
qed

section \<open>A cohort of two, scored\<close>

lemma bar_a_reads:
  "dict_get bar_a ''rating'' = PFloat (9/2)"
  "dict_get bar_a ''user_ratings_total'' = PInt 200"
  "dict_get bar_a ''review_count'' = PInt 30"
  "dict_get bar_a ''price_level'' = PInt 2"
  "dict_get bar_a ''ml_metadata'' = PNone"
  "dict_get bar_a ''avg_food_drink_quality'' = PFloat (9/10)"
  "dict_get bar_a ''avg_would_recommend'' = PFloat (9/10)"
  "dict_get bar_a ''avg_authenticity'' = PFloat (7/10)"
  "dict_get bar_a ''avg_classic_institution'' = PFloat (3/5)"
  "dict_get bar_a ''avg_unpretentious'' = PFloat (1/2)"
  "dict_get bar_a ''avg_service_quality'' = PNone"
  "dict_get bar_a ''avg_value_score'' = PNone"
  "dict_get bar_a ''avg_memorable'' = PNone"
  "dict_get bar_a ''avg_divey_score'' = PNone"
  "dict_get bar_a ''avg_openai_sentiment'' = PNone"
  "dict_get bar_a ''pct_dive_positive'' = PNone"
  "dict_get bar_a ''vibe_tag'' = PNone"
  by (simp_all add: bar_a_def dict_get_def)

lemma bar_b_reads:
  "dict_get bar_b ''rating'' = PFloat 4"
  "dict_get bar_b ''user_ratings_total'' = PInt 50"
  "dict_get bar_b ''review_count'' = PInt 20"
  "dict_get bar_b ''price_level'' = PInt 1"
  "dict_get bar_b ''ml_metadata'' = PNone"
  "dict_get bar_b ''avg_food_drink_quality'' = PFloat (1/2)"
  "dict_get bar_b ''avg_would_recommend'' = PFloat (3/5)"
  "dict_get bar_b ''avg_authenticity'' = PFloat (9/10)"
  "dict_get bar_b ''avg_classic_institution'' = PFloat (4/5)"
  "dict_get bar_b ''avg_unpretentious'' = PFloat (9/10)"
  "dict_get bar_b ''avg_service_quality'' = PNone"
  "dict_get bar_b ''avg_value_score'' = PNone"
  "dict_get bar_b ''avg_memorable'' = PNone"
  "dict_get bar_b ''avg_divey_score'' = PNone"
  "dict_get bar_b ''avg_openai_sentiment'' = PNone"
  "dict_get bar_b ''pct_dive_positive'' = PNone"
  "dict_get bar_b ''vibe_tag'' = PNone"
  by (simp_all add: bar_b_def dict_get_def)

lemma safe_float_simps:
  "safe_float no_parse PNone None = None"
  "safe_float no_parse (PFloat r) None = Some r"
  "safe_float_num no_parse PNone d = d"
  "safe_float_num no_parse (PFloat r) d = r"
  "safe_int no_parse PNone d = d"
  "safe_int no_parse (PInt i) d = i"
  by (simp_all add: safe_float_def safe_float_num_def safe_int_def py_float_def py_int_def
      no_parse_def)

lemma round_clamped:
  "py_round1 (clamp (38/5) 0 10) = 38/5" "py_round1 (clamp (51/10) 0 10) = 51/10"
  "py_round1 (clamp (53/10) 0 10) = 53/10" "py_round1 (clamp 7 0 10) = 7"
  by (simp_all add: clamp_def py_round1_def round_half_even_def)

lemma no_metadata_fallback:
  "dict_get p ''ml_metadata'' = PNone \<Longrightarrow> underrated_fallback B p s = Inr 5"
  by (simp add: underrated_fallback_def read_residual_def py_get_def py_or_simps)

lemma bar_a_scores:
  "character_0_10 no_parse bar_a = 51/10"
  "quality_0_10 no_parse bar_a = 38/5"
  "underrated_0_10 no_parse bar_a s = Inr 5"
proof -
  have "character_0_10 no_parse bar_a = py_round1 (clamp (51/10) 0 10)"
    unfolding character_0_10_def bar_a_reads safe_float_simps by simp
  then show "character_0_10 no_parse bar_a = 51/10" by (simp only: round_clamped)
  have "quality_0_10 no_parse bar_a = py_round1 (clamp (38/5) 0 10)"
    unfolding quality_0_10_def bar_a_reads safe_float_simps by simp
  then show "quality_0_10 no_parse bar_a = 38/5" by (simp only: round_clamped)
  show "underrated_0_10 no_parse bar_a s = Inr 5"
    unfolding underrated_0_10_def bar_a_reads safe_float_simps
    by (simp add: no_metadata_fallback bar_a_reads)
qed

lemma bar_b_scores:
  "character_0_10 no_parse bar_b = 7"
  "quality_0_10 no_parse bar_b = 53/10"
  "underrated_0_10 no_parse bar_b s = Inr 5"
proof -
  have "character_0_10 no_parse bar_b = py_round1 (clamp 7 0 10)"
    unfolding character_0_10_def bar_b_reads safe_float_simps by simp
  then show "character_0_10 no_parse bar_b = 7" by (simp only: round_clamped)
  have "quality_0_10 no_parse bar_b = py_round1 (clamp (53/10) 0 10)"
    unfolding quality_0_10_def bar_b_reads safe_float_simps by simp
  then show "quality_0_10 no_parse bar_b = 53/10" by (simp only: round_clamped)
  show "underrated_0_10 no_parse bar_b s = Inr 5"
    unfolding underrated_0_10_def bar_b_reads safe_float_simps
    by (simp add: no_metadata_fallback bar_b_reads)
qed

lemmas dive_defs = calculate_dive_score_def dive_residual_def py_get_def py_or_simps
  py_num_simps py_float_def dive_total_def rating_score_of_def review_score_of_def
  price_score_of_def ml_bonus_of_def dive_grade_of_def Let_def

lemma py_round1_whole: "py_round1 85 = 85" "py_round1 90 = 90"
  using py_round1_int [of 85] py_round1_int [of 90] by simp_all

lemma bar_a_dive:
  "calculate_dive_score no_parse bar_a
     = Inr (bar_a(''dive_score'' \<mapsto> PFloat 85, ''dive_grade'' \<mapsto> PStr ''A'',
                  ''gem_label'' \<mapsto> PStr (gem_label_of 85)))"
  by (simp add: dive_defs bar_a_reads py_round1_whole)

lemma bar_b_dive:
  "calculate_dive_score no_parse bar_b
     = Inr (bar_b(''dive_score'' \<mapsto> PFloat 90, ''dive_grade'' \<mapsto> PStr ''A'',
                  ''gem_label'' \<mapsto> PStr (gem_label_of 90)))"
  by (simp add: dive_defs bar_b_reads py_round1_whole)

lemma blends:
  "py_round1 (243/40) = 61/10"
  "py_round1 (291/50) = 29/5"
  by (simp_all add: py_round1_def round_half_even_def)

lemma bar_a_enriched: "enrich_place no_parse bar_a s = Inr enriched_a"
  unfolding enrich_place_eq [OF bar_a_dive] bar_a_scores enriched_a_def
  by (simp add: blends)

lemma bar_b_enriched: "enrich_place no_parse bar_b s = Inr enriched_b"
  unfolding enrich_place_eq [OF bar_b_dive] bar_b_scores enriched_b_def
  by (simp add: blends)


lemma score_cohort_eq:
  "score_cohort B rs s =
     (case map_result (\<lambda>place. enrich_place B place s) rs of
        Inl e \<Rightarrow> Inl e
      | Inr es \<Rightarrow> Inr (map (reblend B) (normalize_lenses es)))"
  unfolding score_cohort_def normalize_lenses_def Let_def by (rule refl)

lemma enriched_reads:
  "dict_get enriched_a ''quality_0_10'' = PFloat (38/5)"
  "dict_get enriched_a ''character_0_10'' = PFloat (51/10)"
  "dict_get enriched_a ''underrated_0_10'' = PFloat 5"
  "dict_get enriched_b ''quality_0_10'' = PFloat (53/10)"
  "dict_get enriched_b ''character_0_10'' = PFloat 7"
  "dict_get enriched_b ''underrated_0_10'' = PFloat 5"
  by (simp_all add: enriched_a_def enriched_b_def dict_get_def)

lemma two_bars_normalized:
  "normalize_lenses [enriched_a, enriched_b]
     = [enriched_a(''quality_0_10'' \<mapsto> PFloat 9.5, ''character_0_10'' \<mapsto> PFloat 2.0,
                   ''underrated_0_10'' \<mapsto> PFloat 2.0),
        enriched_b(''quality_0_10'' \<mapsto> PFloat 2.0, ''character_0_10'' \<mapsto> PFloat 9.5,
                   ''underrated_0_10'' \<mapsto> PFloat 9.5)]"
proof -
  have n1: "normalize_to_percentile [enriched_a, enriched_b] ''quality_0_10'' 2.0 9.5
      = [enriched_a(''quality_0_10'' \<mapsto> PFloat 9.5), enriched_b(''quality_0_10'' \<mapsto> PFloat 2.0)]"
    by (rule normalize_two_swapped [where x = "38/5" and y = "53/10"])
       (simp_all add: enriched_reads)
  have n2: "normalize_to_percentile
        [enriched_a(''quality_0_10'' \<mapsto> PFloat 9.5), enriched_b(''quality_0_10'' \<mapsto> PFloat 2.0)]
        ''character_0_10'' 2.0 9.5
      = [enriched_a(''quality_0_10'' \<mapsto> PFloat 9.5, ''character_0_10'' \<mapsto> PFloat 2.0),
         enriched_b(''quality_0_10'' \<mapsto> PFloat 2.0, ''character_0_10'' \<mapsto> PFloat 9.5)]"
    by (rule normalize_two [where x = "51/10" and y = 7])
       (simp_all add: dict_get_other enriched_reads)
  have n3: "normalize_to_percentile
        [enriched_a(''quality_0_10'' \<mapsto> PFloat 9.5, ''character_0_10'' \<mapsto> PFloat 2.0),
         enriched_b(''quality_0_10'' \<mapsto> PFloat 2.0, ''character_0_10'' \<mapsto> PFloat 9.5)]
        ''underrated_0_10'' 2.0 9.5
      = [enriched_a(''quality_0_10'' \<mapsto> PFloat 9.5, ''character_0_10'' \<mapsto> PFloat 2.0,
                    ''underrated_0_10'' \<mapsto> PFloat 2.0),
         enriched_b(''quality_0_10'' \<mapsto> PFloat 2.0, ''character_0_10'' \<mapsto> PFloat 9.5,
                    ''underrated_0_10'' \<mapsto> PFloat 9.5)]"
    by (rule normalize_two [where x = 5 and y = 5])
       (simp_all add: dict_get_other enriched_reads)
  show ?thesis by (simp only: normalize_lenses_def n1 n2 n3)
qed

lemma reblend_three:
  "reblend B (p(''quality_0_10'' \<mapsto> PFloat q, ''character_0_10'' \<mapsto> PFloat c,
                ''underrated_0_10'' \<mapsto> PFloat u))
     = p(''quality_0_10'' \<mapsto> PFloat q, ''character_0_10'' \<mapsto> PFloat c,
         ''underrated_0_10'' \<mapsto> PFloat u,
         ''blended_0_10'' \<mapsto> PFloat (py_round1 (0.40 * q + 0.35 * c + 0.25 * u)))"
proof -
  have "blended_0_10 B (p(''quality_0_10'' \<mapsto> PFloat q, ''character_0_10'' \<mapsto> PFloat c,
                ''underrated_0_10'' \<mapsto> PFloat u))
      = Some (py_round1 (0.40 * q + 0.35 * c + 0.25 * u))"
    by (rule blended_all_three) (simp_all add: field_num_other field_num_same)
  then show ?thesis by (simp only: reblend_def opt_val_def option.case)
qed

lemma final_blends:
  "py_round1 (0.40 * 9.5 + 0.35 * 2.0 + 0.25 * 2.0) = 5.0"
  "py_round1 (0.40 * 2.0 + 0.35 * 9.5 + 0.25 * 9.5) = 6.5"
  by (simp_all add: py_round1_def round_half_even_def)

lemma two_bars_scored: "score_cohort no_parse [bar_a, bar_b] s = Inr [scored_a, scored_b]"
proof -
  have m: "map_result (\<lambda>place. enrich_place no_parse place s) [bar_a, bar_b]
      = Inr [enriched_a, enriched_b]"
    by (simp add: bar_a_enriched bar_b_enriched)
  show ?thesis
    unfolding score_cohort_eq m
    by (simp only: sum.case two_bars_normalized list.map reblend_three final_blends
        scored_a_def scored_b_def)
qed

lemma scored_reads:
  "scored_a ''character_0_10'' = Some (PFloat 2.0)"
  "scored_a ''diveiness_0_10'' = Some (PFloat 5.1)"
  "scored_b ''character_0_10'' = Some (PFloat 9.5)"
  "scored_b ''diveiness_0_10'' = Some (PFloat 7.0)"
  "scored_a ''quality_0_10'' = Some (PFloat 9.5)"
  "scored_a ''underrated_0_10'' = Some (PFloat 2.0)"
  "scored_a ''blended_0_10'' = Some (PFloat 5.0)"
  "enriched_a ''blended_0_10'' = Some (PFloat 6.1)"
  by (simp_all add: scored_a_def scored_b_def enriched_a_def enriched_b_def)

section \<open>The alias after normalization\<close>

text \<open>
  Claim C10 on the cohort \<open>[bar_a, bar_b]\<close>. \<^verbatim>\<open>enrich_place\<close> writes the raw character score
  under both \<^verbatim>\<open>character_0_10\<close> and \<^verbatim>\<open>diveiness_0_10\<close> (5.1 for \<open>bar_a\<close>). The normalizer
  then rewrites \<^verbatim>\<open>character_0_10\<close> only, and nothing copies it back: at the end of the pass
  \<open>bar_a\<close> holds \<^verbatim>\<open>character_0_10 = 2.0\<close> beside \<^verbatim>\<open>diveiness_0_10 = 5.1\<close>, and \<open>bar_b\<close> holds
  9.5 beside 7.0.
\<close>
theorem alias_is_stale_after_normalization:
  "enrich_place no_parse bar_a 0.35 = Inr enriched_a
   \<and> enriched_a ''character_0_10'' = Some (PFloat 5.1)
   \<and> enriched_a ''diveiness_0_10'' = Some (PFloat 5.1)
   \<and> score_cohort no_parse [bar_a, bar_b] 0.35 = Inr [scored_a, scored_b]
   \<and> scored_a ''character_0_10'' = Some (PFloat 2.0)
   \<and> scored_a ''diveiness_0_10'' = Some (PFloat 5.1)
   \<and> scored_b ''character_0_10'' = Some (PFloat 9.5)
   \<and> scored_b ''diveiness_0_10'' = Some (PFloat 7.0)"
proof -
  have "enriched_a ''character_0_10'' = Some (PFloat 5.1)"
    "enriched_a ''diveiness_0_10'' = Some (PFloat 5.1)"
    by (simp_all add: enriched_a_def)
  then show ?thesis
    using bar_a_enriched [of "0.35"] two_bars_scored [of "0.35"] scored_reads(1-4) by blast
qed

section \<open>Ranges of the derived scores\<close>

lemma scored_place_ok:
  assumes "score_cohort B results scale = Inr out" and "p \<in> set out"
  shows "\<exists>n. lens_ok n \<and> dive_ok n \<and> p = reblend B n"
proof -
  obtain es where es: "map_result (\<lambda>place. enrich_place B place scale) results = Inr es"
    and out: "out = map (reblend B) (normalize_lenses es)"
    using score_cohort_form [OF assms(1)] by blast
  have "list_all (\<lambda>p. lens_ok p \<and> dive_ok p) es"
    unfolding list_all_iff using map_result_set [OF es] enrich_ok by blast
  then have "list_all (\<lambda>p. lens_ok p \<and> dive_ok p) (normalize_lenses es)"
    by (rule normalize_lenses_ok)
  moreover obtain n where "n \<in> set (normalize_lenses es)" "p = reblend B n"
    using assms(2) out by auto
  ultimately show ?thesis by (auto simp: list_all_iff)
qed

lemma reblend_ok:
  assumes "lens_ok n"
  obtains q c u where "field_num n ''quality_0_10'' = Some q" "0 \<le> q" "q \<le> 10"
    and "field_num n ''character_0_10'' = Some c" "0 \<le> c" "c \<le> 10"
    and "field_num n ''underrated_0_10'' = Some u" "0 \<le> u" "u \<le> 10"
    and "reblend B n = n(''blended_0_10'' \<mapsto> PFloat (py_round1 (0.40 * q + 0.35 * c + 0.25 * u)))"
proof -
  obtain q c u where f: "field_num n ''quality_0_10'' = Some q" "0 \<le> q" "q \<le> 10"
    "field_num n ''character_0_10'' = Some c" "0 \<le> c" "c \<le> 10"
    "field_num n ''underrated_0_10'' = Some u" "0 \<le> u" "u \<le> 10"
    using lens_ok_fields [OF assms] by metis
  have "blended_0_10 B n = Some (py_round1 (0.40 * q + 0.35 * c + 0.25 * u))"
    using f(1,4,7) by (rule blended_all_three)
  then have "reblend B n = n(''blended_0_10'' \<mapsto> PFloat (py_round1 (0.40 * q + 0.35 * c + 0.25 * u)))"
    by (simp only: reblend_def opt_val_def option.case)
  then show ?thesis using f that by blast
qed

lemma dive_score_range: "0 \<le> t \<Longrightarrow> t \<le> 100 \<Longrightarrow> 0 \<le> py_round1 t \<and> py_round1 t \<le> 100"
  using py_round1_range [of 0 t 1000] by simp

text \<open>
  Claim C1, amended. For every place the scoring pass returns, \<^verbatim>\<open>quality_0_10\<close>,
  \<^verbatim>\<open>character_0_10\<close>, \<^verbatim>\<open>underrated_0_10\<close> and \<^verbatim>\<open>blended_0_10\<close> are floats in [0, 10] and
  \<^verbatim>\<open>dive_score\<close> lies in [0, 100]. \<^verbatim>\<open>dive_grade\<close> and \<^verbatim>\<open>gem_label\<close> are a step function, with
  the boundaries 85, 70 and 50 inclusive on the high side, of the clamped total \<open>t\<close>
  before it is rounded; \<^verbatim>\<open>dive_score\<close> is \<open>t\<close> rounded to one decimal. Hence grade A
  implies \<^verbatim>\<open>dive_score >= 85\<close>, B implies \<^verbatim>\<open>70 <= dive_score <= 85\<close>, C implies
  \<^verbatim>\<open>50 <= dive_score <= 70\<close> and D implies \<^verbatim>\<open>dive_score <= 50\<close>.
\<close>
theorem derived_scores_in_range:
  assumes "score_cohort B results scale = Inr out" and "p \<in> set out"
  shows "(\<exists>q. p ''quality_0_10'' = Some (PFloat q) \<and> 0 \<le> q \<and> q \<le> 10)
     \<and> (\<exists>c. p ''character_0_10'' = Some (PFloat c) \<and> 0 \<le> c \<and> c \<le> 10)
     \<and> (\<exists>u. p ''underrated_0_10'' = Some (PFloat u) \<and> 0 \<le> u \<and> u \<le> 10)
     \<and> (\<exists>b. p ''blended_0_10'' = Some (PFloat b) \<and> 0 \<le> b \<and> b \<le> 10)
     \<and> (\<exists>t. 0 \<le> t \<and> t \<le> 100
            \<and> p ''dive_score'' = Some (PFloat (py_round1 t))
            \<and> 0 \<le> py_round1 t \<and> py_round1 t \<le> 100
            \<and> p ''dive_grade'' = Some (PStr (dive_grade_of t))
            \<and> p ''gem_label'' = Some (PStr (gem_label_of t))
            \<and> (dive_grade_of t = ''A'') = (85 \<le> t)
            \<and> (dive_grade_of t = ''B'') = (70 \<le> t \<and> t < 85)
            \<and> (dive_grade_of t = ''C'') = (50 \<le> t \<and> t < 70)
            \<and> (dive_grade_of t = ''D'') = (t < 50)
            \<and> (gem_label_of t = gem_label_of 85) = (85 \<le> t)
            \<and> (gem_label_of t = gem_label_of 70) = (70 \<le> t \<and> t < 85)
            \<and> (gem_label_of t = gem_label_of 50) = (50 \<le> t \<and> t < 70)
            \<and> (gem_label_of t = gem_label_of 0) = (t < 50)
            \<and> (dive_grade_of t = ''A'' \<longrightarrow> 85 \<le> py_round1 t)
            \<and> (dive_grade_of t = ''B'' \<longrightarrow> 70 \<le> py_round1 t \<and> py_round1 t \<le> 85)
            \<and> (dive_grade_of t = ''C'' \<longrightarrow> 50 \<le> py_round1 t \<and> py_round1 t \<le> 70)
            \<and> (dive_grade_of t = ''D'' \<longrightarrow> py_round1 t \<le> 50))"
proof -
  obtain n where n: "lens_ok n" "dive_ok n" and p: "p = reblend B n"
    using scored_place_ok [OF assms] by blast
  obtain q c u where f: "0 \<le> q" "q \<le> 10" "0 \<le> c" "c \<le> 10" "0 \<le> u" "u \<le> 10"
    and r: "reblend B n = n(''blended_0_10'' \<mapsto> PFloat (py_round1 (0.40 * q + 0.35 * c + 0.25 * u)))"
    using reblend_ok [OF n(1), of B] by metis
  have lp: "lens_ok p" unfolding p r using n(1) by (rule lens_ok_blend)
  have dp: "dive_ok p" unfolding p r using n(2) by (rule dive_ok_upd) simp
  have b: "\<exists>b. p ''blended_0_10'' = Some (PFloat b) \<and> 0 \<le> b \<and> b \<le> 10"
    unfolding p r using blend_in_range [OF f] by simp
  from dp obtain t where t: "0 \<le> t" "t \<le> 100"
    "p ''dive_score'' = Some (PFloat (py_round1 t))"
    "p ''dive_grade'' = Some (PStr (dive_grade_of t))"
    "p ''gem_label'' = Some (PStr (gem_label_of t))"
    unfolding dive_ok_def by blast
  have d: "\<exists>t. 0 \<le> t \<and> t \<le> 100
            \<and> p ''dive_score'' = Some (PFloat (py_round1 t))
            \<and> 0 \<le> py_round1 t \<and> py_round1 t \<le> 100
            \<and> p ''dive_grade'' = Some (PStr (dive_grade_of t))
            \<and> p ''gem_label'' = Some (PStr (gem_label_of t))
            \<and> (dive_grade_of t = ''A'') = (85 \<le> t)
            \<and> (dive_grade_of t = ''B'') = (70 \<le> t \<and> t < 85)
            \<and> (dive_grade_of t = ''C'') = (50 \<le> t \<and> t < 70)
            \<and> (dive_grade_of t = ''D'') = (t < 50)
            \<and> (gem_label_of t = gem_label_of 85) = (85 \<le> t)
            \<and> (gem_label_of t = gem_label_of 70) = (70 \<le> t \<and> t < 85)
            \<and> (gem_label_of t = gem_label_of 50) = (50 \<le> t \<and> t < 70)
            \<and> (gem_label_of t = gem_label_of 0) = (t < 50)
            \<and> (dive_grade_of t = ''A'' \<longrightarrow> 85 \<le> py_round1 t)
            \<and> (dive_grade_of t = ''B'' \<longrightarrow> 70 \<le> py_round1 t \<and> py_round1 t \<le> 85)
            \<and> (dive_grade_of t = ''C'' \<longrightarrow> 50 \<le> py_round1 t \<and> py_round1 t \<le> 70)
            \<and> (dive_grade_of t = ''D'' \<longrightarrow> py_round1 t \<le> 50)"
    apply (rule exI [of _ t])
    apply (intro conjI t dive_grade_steps gem_label_steps)
    using dive_score_range [OF t(1,2)] rounded_score_of_grade [of t] apply simp_all
    done
  show ?thesis using lp b d unfolding lens_ok_def by blast
qed


theorem derived_scores_in_range_witness:
  "score_cohort no_parse [bar_a, bar_b] 0.35 = Inr [scored_a, scored_b]
   \<and> scored_a \<in> set [scored_a, scored_b]
   \<and> (\<exists>q. scored_a ''quality_0_10'' = Some (PFloat q) \<and> 0 \<le> q \<and> q \<le> 10)
   \<and> (\<exists>c. scored_a ''character_0_10'' = Some (PFloat c) \<and> 0 \<le> c \<and> c \<le> 10)
   \<and> (\<exists>u. scored_a ''underrated_0_10'' = Some (PFloat u) \<and> 0 \<le> u \<and> u \<le> 10)
   \<and> (\<exists>b. scored_a ''blended_0_10'' = Some (PFloat b) \<and> 0 \<le> b \<and> b \<le> 10)
   \<and> (\<exists>t. 0 \<le> t \<and> t \<le> 100
          \<and> scored_a ''dive_score'' = Some (PFloat (py_round1 t))
          \<and> scored_a ''dive_grade'' = Some (PStr (dive_grade_of t)))"
proof -
  have m: "scored_a \<in> set [scored_a, scored_b]" by simp
  note t = derived_scores_in_range [OF two_bars_scored [of "0.35"] m]
  show ?thesis using two_bars_scored [of "0.35"] m t by blast
qed

lemma near_gem_reads:
  "dict_get near_gem ''rating'' = PFloat 4.496"
  "dict_get near_gem ''user_ratings_total'' = PInt 100"
  "dict_get near_gem ''price_level'' = PInt 2"
  "dict_get near_gem ''ml_metadata'' = PNone"
  "dict_get near_gem ''avg_would_recommend'' = PNone"
  "dict_get near_gem ''avg_openai_sentiment'' = PNone"
  by (simp_all add: near_gem_def dict_get_def)

lemma near_gem_total:
  "dive_total 4.496 100 (PInt 2) 0 = 84.96"
  "py_round1 84.96 = 85"
  "dive_grade_of 84.96 = ''B''"
  by (simp_all add: dive_total_def rating_score_of_def review_score_of_def price_score_of_def
      ml_bonus_of_def py_num_def py_round1_def round_half_even_def dive_grade_of_def)

lemma near_gem_dive:
  "calculate_dive_score no_parse near_gem
     = Inr (near_gem(''dive_score'' \<mapsto> PFloat 85, ''dive_grade'' \<mapsto> PStr ''B'',
                     ''gem_label'' \<mapsto> PStr (gem_label_of 84.96)))"
proof -
  have "calculate_dive_score no_parse near_gem
     = Inr (near_gem(''dive_score'' \<mapsto> PFloat (py_round1 (dive_total 4.496 100 (PInt 2) 0)),
             ''dive_grade'' \<mapsto> PStr (dive_grade_of (dive_total 4.496 100 (PInt 2) 0)),
             ''gem_label'' \<mapsto> PStr (gem_label_of (dive_total 4.496 100 (PInt 2) 0))))"
    unfolding calculate_dive_score_def near_gem_reads
    by (simp add: py_or_simps py_num_simps dive_residual_def py_get_def py_float_def Let_def)
  then show ?thesis by (simp only: near_gem_total)
qed

lemma near_gem_underrated: "underrated_0_10 no_parse near_gem s = Inr 5"
  unfolding underrated_0_10_def near_gem_reads safe_float_simps
  by (simp add: no_metadata_fallback near_gem_reads)

text \<open>
  Claim C1, as stated, fails for the grade: a place rated 4.496 on 100 ratings at price
  tier 2 totals 84.96, which is graded B, and its \<^verbatim>\<open>dive_score\<close> is stored as
  \<^verbatim>\<open>round(84.96, 1) = 85.0\<close>. So \<^verbatim>\<open>dive_score >= 85\<close> holds and the grade is not A.
\<close>
theorem grade_follows_unrounded_total:
  "\<exists>p. score_cohort no_parse [near_gem] 0.35 = Inr [p]
       \<and> p ''dive_score'' = Some (PFloat 85)
       \<and> p ''dive_grade'' = Some (PStr ''B'')
       \<and> p ''dive_grade'' \<noteq> Some (PStr ''A'')"
proof -
  obtain E where e: "enrich_place no_parse near_gem 0.35 = Inr E"
    and ds: "E ''dive_score'' = Some (PFloat 85)" and dg: "E ''dive_grade'' = Some (PStr ''B'')"
    unfolding enrich_place_eq [OF near_gem_dive] near_gem_underrated by simp
  have m: "map_result (\<lambda>place. enrich_place no_parse place 0.35) [near_gem] = Inr [E]"
    unfolding map_result.simps e by simp
  have "score_cohort no_parse [near_gem] 0.35 = Inr [reblend no_parse E]"
    unfolding score_cohort_eq m by (simp add: normalize_lenses_single)
  moreover have "reblend no_parse E ''dive_score'' = Some (PFloat 85)"
    "reblend no_parse E ''dive_grade'' = Some (PStr ''B'')"
    using ds dg by (simp_all add: reblend_def)
  ultimately show ?thesis by auto
qed

section \<open>The blend is recomputed from the normalized sub-scores\<close>





section \<open>The custom score in the endpoint's answer\<close>





lemma filter_result_subset: "filter_result f xs = Inr ys \<Longrightarrow> set ys \<subseteq> set xs"
  by (induction xs arbitrary: ys) (auto split: sum.splits if_splits)









end
